theory Spec2Isabelle
  imports Main "HOL-Library.Word" "HOL-Library.AList"
begin

unbundle bit_operations_syntax

section \<open>Machine integers and packet bytes\<close>

text \<open>
  The program is an XDP/eBPF packet filter (\<^verbatim>\<open>minecraft_protection.c\<close>). Its integers are
  the fixed-width unsigned kernel types; they are modelled as words of the same width, so
  that \<open>+\<close>, \<open>-\<close> and \<open>*\<close> wrap around as they do in C.
\<close>

type_synonym u8 = "8 word"
type_synonym u16 = "16 word"
type_synonym u32 = "32 word"
type_synonym u64 = "64 word"

section \<open>Data structures\<close>

text \<open>
  The structs of the source, field by field (padding left out). The field \<^verbatim>\<open>protocol\<close> of
  \<^verbatim>\<open>struct conntrack_entry\<close> is named \<open>ct_protocol\<close> and its \<^verbatim>\<open>state\<close> is named
  \<open>ct_state\<close>, since two records of one theory cannot share a field name unqualified.
\<close>

record endpoint_key =
  prefix_len :: u32
  ip :: u32
  port :: u16
  protocol :: u8

record endpoint_info =
  origin_ip :: u32
  origin_port :: u16
  rate_limit :: u32
  burst_limit :: u32
  protocol_type :: u8
  maintenance_mode :: u8

record rate_limit_state =
  last_update :: u64
  tokens :: u32
  last_burst :: u32

record conntrack_entry =
  src_ip :: u32
  dst_ip :: u32
  src_port :: u16
  dst_port :: u16
  ct_protocol :: u8
  ct_state :: u8
  challenge_id :: u16

record udp_challenge_state =
  timestamp :: u64
  challenge_cookie :: u32
  challenge_sent :: u8

section \<open>Kernel hash tables\<close>

text \<open>
  A \<^verbatim>\<open>BPF_MAP_TYPE_HASH\<close> table is a finite map with a fixed capacity
  (\<^verbatim>\<open>max_entries\<close>). It is modelled as an association list; the helpers are the three
  the program calls:
  \<^item> \<^verbatim>\<open>bpf_map_lookup_elem\<close> returns the stored value or \<^verbatim>\<open>NULL\<close> (\<open>None\<close>);
  \<^item> \<^verbatim>\<open>bpf_map_update_elem\<close> with \<^verbatim>\<open>BPF_ANY\<close> replaces the value of a key that is present,
    inserts a new key while fewer than \<^verbatim>\<open>max_entries\<close> keys are stored, and fails (a negative
    return value, \<open>None\<close> here) when the table is full and the key is new;
  \<^item> \<^verbatim>\<open>bpf_map_delete_elem\<close> removes the key.
  A store through the pointer that a lookup returned (\<^verbatim>\<open>state->tokens = ...\<close>) changes the
  stored value in place and cannot fail: \<open>store_in_place\<close>.
\<close>

type_synonym ('k, 'v) bpf_hash = "('k \<times> 'v) list"

definition bpf_map_lookup_elem :: "('k, 'v) bpf_hash \<Rightarrow> 'k \<Rightarrow> 'v option" where
  "bpf_map_lookup_elem m k = map_of m k"

definition bpf_map_update_elem ::
    "nat \<Rightarrow> ('k, 'v) bpf_hash \<Rightarrow> 'k \<Rightarrow> 'v \<Rightarrow> ('k, 'v) bpf_hash option" where
  "bpf_map_update_elem max_entries m k v =
     (case map_of m k of
        Some old \<Rightarrow> Some (AList.update k v m)
      | None \<Rightarrow> if max_entries \<le> length m then None else Some (AList.update k v m))"

definition bpf_map_delete_elem :: "('k, 'v) bpf_hash \<Rightarrow> 'k \<Rightarrow> ('k, 'v) bpf_hash" where
  "bpf_map_delete_elem m k = AList.delete k m"

definition store_in_place :: "('k, 'v) bpf_hash \<Rightarrow> 'k \<Rightarrow> 'v \<Rightarrow> ('k, 'v) bpf_hash" where
  "store_in_place m k v = AList.update k v m"

text \<open>
  Every call of \<^verbatim>\<open>bpf_map_update_elem\<close> made while one packet is processed is recorded, with
  the table it wrote to and whether the write succeeded.
\<close>

datatype table = Map_src_rate | Map_conntrack | Map_udp_challenges

type_synonym write_log = "(table \<times> bool) list"

definition map_src_rate_max_entries :: nat where
  "map_src_rate_max_entries = 100000"

definition map_conntrack_max_entries :: nat where
  "map_conntrack_max_entries = 100000"

definition map_udp_challenges_max_entries :: nat where
  "map_udp_challenges_max_entries = 10000"

section \<open>Flow key\<close>

text \<open>
  \<^verbatim>\<open>hash_5tuple\<close>: every operand is widened to 64 bits (the casts of the source, and the
  integer promotion of \<^verbatim>\<open>dst_ip\<close>), shifted, and combined with bitwise OR.
\<close>

definition hash_5tuple :: "u32 \<Rightarrow> u32 \<Rightarrow> u16 \<Rightarrow> u16 \<Rightarrow> u8 \<Rightarrow> u64" where
  "hash_5tuple saddr daddr sport dport proto =
     push_bit 32 (ucast saddr) OR ucast daddr OR push_bit 48 (ucast sport) OR
     push_bit 32 (ucast dport) OR push_bit 24 (ucast proto)"

section \<open>Flow tracker\<close>

text \<open>
  The last step of \<^verbatim>\<open>xdp_minecraft_protection\<close> (lines 457 to 479): the flow key is looked
  up in \<^verbatim>\<open>map_conntrack\<close>; only when no entry is stored under it, an entry recording the
  5-tuple of the current packet is inserted. The result of that insert is not examined.
\<close>

definition conntrack_record ::
    "u32 \<Rightarrow> u32 \<Rightarrow> u16 \<Rightarrow> u16 \<Rightarrow> u8 \<Rightarrow> (u64, conntrack_entry) bpf_hash
      \<Rightarrow> (u64, conntrack_entry) bpf_hash \<times> write_log" where
  "conntrack_record saddr daddr sport dport proto conntrack =
     (let flow_hash = hash_5tuple saddr daddr sport dport proto in
      case bpf_map_lookup_elem conntrack flow_hash of
        Some conn \<Rightarrow> (conntrack, [])
      | None \<Rightarrow>
          (let new_conn = \<lparr>src_ip = saddr, dst_ip = daddr, src_port = sport, dst_port = dport,
                            ct_protocol = proto, ct_state = 1, challenge_id = 0\<rparr> in
           case bpf_map_update_elem map_conntrack_max_entries conntrack flow_hash new_conn of
             Some conntrack' \<Rightarrow> (conntrack', [(Map_conntrack, True)])
           | None \<Rightarrow> (conntrack, [(Map_conntrack, False)])))"

section \<open>Counters\<close>

text \<open>
  The anonymous enum of counter indices, in the order of the source, so that
  \<open>stat_index\<close> gives each name the value the C compiler gives it.
\<close>

datatype stat =
    STAT_ALLOWED_PACKETS
  | STAT_BLOCKED_RATE_LIMIT
  | STAT_BLOCKED_BLACKLIST
  | STAT_BLOCKED_INVALID_PROTOCOL
  | STAT_BLOCKED_CHALLENGE_FAILED
  | STAT_BLOCKED_MAINTENANCE
  | STAT_TOTAL_PACKETS
  | STAT_XDP_DROP
  | STAT_XDP_PASS
  | STAT_XDP_REDIRECT
  | STAT_UDP_CHALLENGES_SENT
  | STAT_UDP_CHALLENGES_PASSED

fun stat_index :: "stat \<Rightarrow> u32" where
  "stat_index STAT_ALLOWED_PACKETS = 0"
| "stat_index STAT_BLOCKED_RATE_LIMIT = 1"
| "stat_index STAT_BLOCKED_BLACKLIST = 2"
| "stat_index STAT_BLOCKED_INVALID_PROTOCOL = 3"
| "stat_index STAT_BLOCKED_CHALLENGE_FAILED = 4"
| "stat_index STAT_BLOCKED_MAINTENANCE = 5"
| "stat_index STAT_TOTAL_PACKETS = 6"
| "stat_index STAT_XDP_DROP = 7"
| "stat_index STAT_XDP_PASS = 8"
| "stat_index STAT_XDP_REDIRECT = 9"
| "stat_index STAT_UDP_CHALLENGES_SENT = 10"
| "stat_index STAT_UDP_CHALLENGES_PASSED = 11"

text \<open>
  \<^verbatim>\<open>map_stats\<close> is a \<^verbatim>\<open>BPF_MAP_TYPE_ARRAY\<close> of \<^verbatim>\<open>max_entries\<close> 64-bit slots, modelled as
  the list of its slots. A lookup with an index that is not below \<^verbatim>\<open>max_entries\<close> returns
  \<^verbatim>\<open>NULL\<close>, and \<^verbatim>\<open>update_stats\<close> then does nothing; otherwise the slot is incremented (the
  64-bit addition wraps).
\<close>

definition map_stats_max_entries :: nat where
  "map_stats_max_entries = 10"

definition update_stats :: "stat \<Rightarrow> u64 list \<Rightarrow> u64 list" where
  "update_stats stat_type stats =
     (let key = unat (stat_index stat_type) in
      if key < map_stats_max_entries then stats[key := stats ! key + 1] else stats)"

section \<open>Rate limiter\<close>

text \<open>
  \<^verbatim>\<open>get_current_time\<close>: the kernel clock in nanoseconds, divided by 1000000 and truncated to
  32 bits by the return type. The clock reading \<open>ktime\<close> is an input of every function that
  calls \<^verbatim>\<open>bpf_ktime_get_ns\<close>.
\<close>

definition get_current_time :: "u64 \<Rightarrow> u32" where
  "get_current_time ktime = ucast (ktime div 1000000)"

text \<open>
  \<^verbatim>\<open>update_rate_limit\<close> returns 1 (allow), 0 (deny) or -1 (the insert failed), with the
  table as it leaves it and the writes it attempted. \<^verbatim>\<open>time_diff\<close> is the 64-bit
  difference truncated to 32 bits. \<open>refill_tokens\<close> is lines 151 to 154: the product, the
  quotient and the sum are 32-bit, then the sum is capped at the burst limit.
\<close>

definition refill_tokens :: "u32 \<Rightarrow> u32 \<Rightarrow> u32 \<Rightarrow> u32 \<Rightarrow> u32" where
  "refill_tokens stored time_diff rate burst =
     (let new_tokens = stored + (time_diff * rate) div 1000 in
      if new_tokens > burst then burst else new_tokens)"

definition update_rate_limit ::
    "u64 \<Rightarrow> u32 \<Rightarrow> u32 \<Rightarrow> u32 \<Rightarrow> (u32, rate_limit_state) bpf_hash
      \<Rightarrow> int \<times> (u32, rate_limit_state) bpf_hash \<times> write_log" where
  "update_rate_limit ktime saddr rate burst src_rate =
     (let current_time = get_current_time ktime in
      case bpf_map_lookup_elem src_rate saddr of
        None \<Rightarrow>
          (let new_state = \<lparr>last_update = ucast current_time, tokens = burst, last_burst = 0\<rparr> in
           case bpf_map_update_elem map_src_rate_max_entries src_rate saddr new_state of
             None \<Rightarrow> (- 1, src_rate, [(Map_src_rate, False)])
           | Some src_rate' \<Rightarrow> (1, src_rate', [(Map_src_rate, True)]))
      | Some state \<Rightarrow>
          (let time_diff = (ucast ((ucast current_time :: u64) - last_update state) :: u32);
               new_tokens = refill_tokens (tokens state) time_diff rate burst in
           if new_tokens = 0
           then (0, store_in_place src_rate saddr (state\<lparr>last_update := ucast current_time\<rparr>), [])
           else (1, store_in_place src_rate saddr
                      (state\<lparr>tokens := new_tokens - 1, last_update := ucast current_time\<rparr>), [])))"

section \<open>Blacklist\<close>

definition is_blacklisted :: "u64 \<Rightarrow> u32 \<Rightarrow> (u32, u64) bpf_hash \<Rightarrow> int \<times> (u32, u64) bpf_hash" where
  "is_blacklisted ktime saddr blacklist =
     (case bpf_map_lookup_elem blacklist saddr of
        None \<Rightarrow> (0, blacklist)
      | Some blocked_until \<Rightarrow>
          (let current_time = ktime div 1000000 in
           if current_time < blocked_until then (1, blacklist)
           else (0, bpf_map_delete_elem blacklist saddr)))"

section \<open>Protocol validators\<close>

text \<open>
  A validator is given the two pointers \<^verbatim>\<open>data\<close> and \<^verbatim>\<open>data_end\<close>. The buffer between them
  is the list \<open>pkt\<close> of its bytes, and \<open>data\<close> is the address of the first one, so that
  \<^verbatim>\<open>data_end\<close> is \<open>data + length pkt\<close>. A read \<^verbatim>\<open>pkt[offset]\<close> with \<open>offset\<close> not below
  \<open>length pkt\<close> is a read past the buffer end; the model stops there and reports the
  offset (\<open>ReadPastEnd\<close>) instead of inventing the byte.
\<close>

datatype 'a res = Returns 'a | ReadPastEnd nat

definition pkt_read :: "u8 list \<Rightarrow> nat \<Rightarrow> u8 res" where
  "pkt_read pkt offset = (if offset < length pkt then Returns (pkt ! offset) else ReadPastEnd offset)"

text \<open>
  \<^verbatim>\<open>validate_minecraft_java\<close>. The source compares the index \<^verbatim>\<open>offset\<close> (and \<^verbatim>\<open>offset + 1\<close>)
  with the pointer \<^verbatim>\<open>data_end\<close> itself, not with \<^verbatim>\<open>data + offset\<close>; the model compares the
  same two numbers. \<^verbatim>\<open>offset\<close> is kept as a natural number (a buffer is far shorter than
  \<open>2 ^ 32\<close> bytes). The accumulators are 32-bit; a left shift is \<open>push_bit\<close> on the 32-bit
  word, which drops the bits shifted out. \<^verbatim>\<open>length_bytes\<close> is 0 throughout the source.

  The first loop, lines 205 to 210. \<open>Inl\<close> is the \<^verbatim>\<open>return 0\<close> inside the loop body,
  \<open>Inr\<close> the offset and the length accumulated when the loop ends.
\<close>

function java_length_loop :: "nat \<Rightarrow> u8 list \<Rightarrow> nat \<Rightarrow> u32 \<Rightarrow> (int + nat \<times> u32) res" where
  "java_length_loop data_end pkt offset len =
     (if offset < 5 then
        (case pkt_read pkt offset of
           ReadPastEnd a \<Rightarrow> ReadPastEnd a
         | Returns b \<Rightarrow>
             if b AND 0x80 \<noteq> 0 then
               (if offset + 1 > data_end then Returns (Inl 0)
                else java_length_loop data_end pkt (offset + 1)
                       (len OR push_bit (7 * (offset - 0)) (ucast (b AND 0x7F))))
             else Returns (Inr (offset, len)))
      else Returns (Inr (offset, len)))"
  by pat_completeness auto
termination
  by (relation "measure (\<lambda>(data_end, pkt, offset, len). 5 - offset)") auto

text \<open>
  The second loop, lines 237 to 240: it runs while \<^verbatim>\<open>offset < data_end\<close> and the byte
  read has its top bit set.
\<close>

function java_version_loop :: "nat \<Rightarrow> u8 list \<Rightarrow> nat \<Rightarrow> u32 \<Rightarrow> (nat \<times> u32) res" where
  "java_version_loop data_end pkt offset protocol_version =
     (if offset < data_end then
        (case pkt_read pkt offset of
           ReadPastEnd a \<Rightarrow> ReadPastEnd a
         | Returns b \<Rightarrow>
             if b AND 0x80 \<noteq> 0 then
               java_version_loop data_end pkt (offset + 1)
                 (protocol_version OR push_bit (7 * (offset - 1)) (ucast (b AND 0x7F)))
             else Returns (offset, protocol_version))
      else Returns (offset, protocol_version))"
  by pat_completeness auto
termination
  by (relation "measure (\<lambda>(data_end, pkt, offset, protocol_version). length pkt - offset)")
     (auto simp: pkt_read_def split: if_splits)

text \<open>Lines 197 to 217: the declared length.\<close>

definition java_parse_length :: "nat \<Rightarrow> u8 list \<Rightarrow> (int + nat \<times> u32) res" where
  "java_parse_length data_end pkt =
     (case pkt_read pkt 0 of
        ReadPastEnd a \<Rightarrow> ReadPastEnd a
      | Returns byte \<Rightarrow>
          if byte AND 0x80 \<noteq> 0 then
            (case java_length_loop data_end pkt 1 (ucast (byte AND 0x7F)) of
               ReadPastEnd a \<Rightarrow> ReadPastEnd a
             | Returns (Inl r) \<Rightarrow> Returns (Inl r)
             | Returns (Inr (offset, len)) \<Rightarrow>
                 if offset < 5 then
                   (case pkt_read pkt offset of
                      ReadPastEnd a \<Rightarrow> ReadPastEnd a
                    | Returns b \<Rightarrow>
                        Returns (Inr (offset + 1, len OR push_bit (7 * (offset - 0)) (ucast b))))
                 else Returns (Inr (offset, len)))
          else Returns (Inr (1, ucast byte)))"

text \<open>Lines 232 to 247: the declared protocol version, read from \<open>offset\<close> on.\<close>

definition java_parse_version :: "nat \<Rightarrow> u8 list \<Rightarrow> nat \<Rightarrow> u32 res" where
  "java_parse_version data_end pkt offset =
     (case pkt_read pkt offset of
        ReadPastEnd a \<Rightarrow> ReadPastEnd a
      | Returns ver_byte \<Rightarrow>
          if ver_byte AND 0x80 \<noteq> 0 then
            (case java_version_loop data_end pkt (offset + 1) (ucast (ver_byte AND 0x7F)) of
               ReadPastEnd a \<Rightarrow> ReadPastEnd a
             | Returns (offset', protocol_version) \<Rightarrow>
                 if offset' < data_end then
                   (case pkt_read pkt offset' of
                      ReadPastEnd a \<Rightarrow> ReadPastEnd a
                    | Returns b \<Rightarrow>
                        Returns (protocol_version OR push_bit (7 * (offset' - 1)) (ucast b)))
                 else Returns protocol_version)
          else Returns (ucast ver_byte))"

definition validate_minecraft_java :: "nat \<Rightarrow> u8 list \<Rightarrow> int res" where
  "validate_minecraft_java data pkt =
     (let data_end = data + length pkt in
      if data + 5 > data_end then Returns 0
      else
        (case java_parse_length data_end pkt of
           ReadPastEnd a \<Rightarrow> ReadPastEnd a
         | Returns (Inl r) \<Rightarrow> Returns r
         | Returns (Inr (offset, len)) \<Rightarrow>
             if len < 5 \<or> len > 100 then Returns 0
             else if offset \<ge> data_end then Returns 0
             else
               (case pkt_read pkt offset of
                  ReadPastEnd a \<Rightarrow> ReadPastEnd a
                | Returns packet_id \<Rightarrow>
                    if packet_id \<noteq> 0 then Returns 0
                    else if offset + 1 \<ge> data_end then Returns 0
                    else
                      (case java_parse_version data_end pkt (offset + 1) of
                         ReadPastEnd a \<Rightarrow> ReadPastEnd a
                       | Returns protocol_version \<Rightarrow>
                           if protocol_version < 4 \<or> protocol_version > 1000 then Returns 0
                           else Returns 1))))"

text \<open>
  \<^verbatim>\<open>validate_minecraft_bedrock\<close>. Every read is below a length the function has checked
  before (4, then 17), so the bytes are taken from the list directly.
\<close>

definition raknet_magic_at :: "u8 list \<Rightarrow> bool" where
  "raknet_magic_at pkt \<longleftrightarrow>
     pkt ! 1 = 0x00 \<and> pkt ! 2 = 0xFF \<and> pkt ! 3 = 0xFF \<and> pkt ! 4 = 0x00 \<and>
     pkt ! 5 = 0xFE \<and> pkt ! 6 = 0xFE \<and> pkt ! 7 = 0xFE \<and> pkt ! 8 = 0xFE \<and>
     pkt ! 9 = 0xFD \<and> pkt ! 10 = 0xFD \<and> pkt ! 11 = 0xFD \<and> pkt ! 12 = 0xFD \<and>
     pkt ! 13 = 0x12 \<and> pkt ! 14 = 0x34 \<and> pkt ! 15 = 0x56 \<and> pkt ! 16 = 0x78"

definition validate_minecraft_bedrock :: "u8 list \<Rightarrow> int" where
  "validate_minecraft_bedrock pkt =
     (if length pkt < 4 then 0
      else
        (let packet_type = pkt ! 0 in
         if packet_type = 0x05 \<or> packet_type = 0x06 \<or> packet_type = 0x07 \<or>
            packet_type = 0x08 \<or> packet_type = 0x09 \<or> packet_type = 0x10 \<or>
            packet_type = 0x13 \<or> packet_type = 0x15 \<or> packet_type = 0x1c
         then
           (if packet_type = 0x05 \<or> packet_type = 0x15 then
              (if length pkt < 17 then 0
               else if raknet_magic_at pkt then 1
               else 1)
            else 1)
         else 0))"

section \<open>Challenge gate\<close>

text \<open>
  \<^verbatim>\<open>handle_udp_challenge\<close> returns 1 (allow) or 0 (deny), with the challenge table and the
  counters as it leaves them and the writes it attempted. \<open>ktime\<close> is the clock reading of
  this call and \<open>ktime_retry\<close> the reading of the recursive call, which the source makes
  after it has deleted an expired challenge. \<open>new_challenge\<close> is the initializer of lines
  322 to 326. The age \<^verbatim>\<open>current_time - challenge->timestamp\<close>
  is a 64-bit difference. \<^verbatim>\<open>data + 8 > data_end\<close> is \<open>length pkt < 8\<close>.
\<close>

definition new_challenge :: "u64 \<Rightarrow> u32 \<Rightarrow> udp_challenge_state" where
  "new_challenge current_time saddr =
     \<lparr>timestamp = current_time, challenge_cookie = ucast (current_time XOR ucast saddr),
      challenge_sent = 1\<rparr>"

function handle_udp_challenge ::
    "u64 \<Rightarrow> u64 \<Rightarrow> u32 \<Rightarrow> u8 list \<Rightarrow> (u32, udp_challenge_state) bpf_hash \<Rightarrow> u64 list
      \<Rightarrow> int \<times> (u32, udp_challenge_state) bpf_hash \<times> u64 list \<times> write_log" where
  "handle_udp_challenge ktime ktime_retry saddr pkt challenges stats =
     (let current_time = ktime div 1000000 in
      case bpf_map_lookup_elem challenges saddr of
        None \<Rightarrow>
          (case bpf_map_update_elem map_udp_challenges_max_entries challenges saddr
                  (new_challenge current_time saddr) of
             None \<Rightarrow> (0, challenges, stats, [(Map_udp_challenges, False)])
           | Some challenges' \<Rightarrow>
               (0, challenges', update_stats STAT_UDP_CHALLENGES_SENT stats,
                [(Map_udp_challenges, True)]))
      | Some challenge \<Rightarrow>
          if current_time - timestamp challenge > 5000 then
            handle_udp_challenge ktime_retry ktime_retry saddr pkt
              (bpf_map_delete_elem challenges saddr) stats
          else if length pkt < 8 then (0, challenges, stats, [])
          else if current_time - timestamp challenge > 100 then
            (1, bpf_map_delete_elem challenges saddr,
             update_stats STAT_UDP_CHALLENGES_PASSED stats, [])
          else (0, challenges, stats, []))"
  by pat_completeness auto
termination
  by (relation "measure (\<lambda>(ktime, ktime_retry, saddr, pkt, challenges, stats).
                  case map_of challenges saddr of None \<Rightarrow> 0 | Some c \<Rightarrow> Suc 0)")
     (auto simp: bpf_map_lookup_elem_def bpf_map_delete_elem_def delete_conv)

declare handle_udp_challenge.simps [simp del]

section \<open>Endpoint registry\<close>

text \<open>
  \<^verbatim>\<open>map_protected_endpoints\<close> is a \<^verbatim>\<open>BPF_MAP_TYPE_LPM_TRIE\<close> keyed by
  \<^verbatim>\<open>struct endpoint_key\<close>. The kernel reads such a key as a 32-bit prefix length followed by
  the key data: here the 8 bytes that follow \<^verbatim>\<open>prefix_len\<close> in the struct, which are the
  address, the port, the protocol and one byte of padding, in memory order (the host is
  taken to be little-endian). A lookup returns the value stored
  under the longest prefix for the key: among the stored keys whose prefix length is at
  most the prefix length of the lookup key, and whose data agree with the lookup key's data
  on that many leading bits (most significant bit of the first byte first), the one with
  the greatest prefix length. A lookup key with a prefix length above 64, the number of
  data bits, finds nothing.
\<close>

definition key_data :: "endpoint_key \<Rightarrow> u8 list" where
  "key_data k =
     [ucast (ip k), ucast (drop_bit 8 (ip k)), ucast (drop_bit 16 (ip k)), ucast (drop_bit 24 (ip k)),
      ucast (port k), ucast (drop_bit 8 (port k)), protocol k, 0]"

definition byte_bits :: "u8 \<Rightarrow> bool list" where
  "byte_bits b = map (bit b) [7, 6, 5, 4, 3, 2, 1, 0]"

definition key_bits :: "endpoint_key \<Rightarrow> bool list" where
  "key_bits k = concat (map byte_bits (key_data k))"

definition lpm_covers :: "endpoint_key \<Rightarrow> endpoint_key \<Rightarrow> bool" where
  "lpm_covers node key \<longleftrightarrow>
     prefix_len node \<le> prefix_len key \<and>
     take (unat (prefix_len node)) (key_bits node) = take (unat (prefix_len node)) (key_bits key)"

fun lpm_longest :: "(endpoint_key \<times> 'v) list \<Rightarrow> endpoint_key \<Rightarrow> (endpoint_key \<times> 'v) option" where
  "lpm_longest [] key = None"
| "lpm_longest ((k, v) # rest) key =
     (case lpm_longest rest key of
        None \<Rightarrow> if lpm_covers k key then Some (k, v) else None
      | Some (k', v') \<Rightarrow>
          if lpm_covers k key \<and> prefix_len k' < prefix_len k then Some (k, v) else Some (k', v'))"

definition lpm_trie_lookup_elem :: "(endpoint_key \<times> 'v) list \<Rightarrow> endpoint_key \<Rightarrow> 'v option" where
  "lpm_trie_lookup_elem trie key =
     (if 64 < prefix_len key then None else map_option snd (lpm_longest trie key))"

section \<open>Decision pipeline\<close>

text \<open>
  The frame is the byte list between \<^verbatim>\<open>ctx->data\<close> and \<^verbatim>\<open>ctx->data_end\<close>. The header
  structs are laid over it at fixed offsets: \<^verbatim>\<open>struct ethhdr\<close> (14 bytes) at 0,
  \<^verbatim>\<open>struct iphdr\<close> (20 bytes) at 14, \<^verbatim>\<open>struct tcphdr\<close> (20 bytes) or
  \<^verbatim>\<open>struct udphdr\<close> (8 bytes) at 34. A multi-byte field is loaded as the little-endian
  host loads it; \<^verbatim>\<open>bpf_htons\<close> and \<^verbatim>\<open>bpf_ntohs\<close> swap the two bytes of a 16-bit value. Each
  accessor is used only after the length check of the source that covers its bytes.
\<close>

definition le16 :: "u8 \<Rightarrow> u8 \<Rightarrow> u16" where
  "le16 b0 b1 = ucast b0 OR push_bit 8 (ucast b1)"

definition le32 :: "u8 \<Rightarrow> u8 \<Rightarrow> u8 \<Rightarrow> u8 \<Rightarrow> u32" where
  "le32 b0 b1 b2 b3 =
     ucast b0 OR push_bit 8 (ucast b1) OR push_bit 16 (ucast b2) OR push_bit 24 (ucast b3)"

definition bpf_htons :: "u16 \<Rightarrow> u16" where
  "bpf_htons x = push_bit 8 x OR drop_bit 8 x"

definition bpf_ntohs :: "u16 \<Rightarrow> u16" where
  "bpf_ntohs x = push_bit 8 x OR drop_bit 8 x"

definition eth_h_proto :: "u8 list \<Rightarrow> u16" where
  "eth_h_proto pkt = le16 (pkt ! 12) (pkt ! 13)"

definition ip_protocol :: "u8 list \<Rightarrow> u8" where
  "ip_protocol pkt = pkt ! 23"

definition ip_saddr :: "u8 list \<Rightarrow> u32" where
  "ip_saddr pkt = le32 (pkt ! 26) (pkt ! 27) (pkt ! 28) (pkt ! 29)"

definition ip_daddr :: "u8 list \<Rightarrow> u32" where
  "ip_daddr pkt = le32 (pkt ! 30) (pkt ! 31) (pkt ! 32) (pkt ! 33)"

definition l4_source :: "u8 list \<Rightarrow> u16" where
  "l4_source pkt = le16 (pkt ! 34) (pkt ! 35)"

definition l4_dest :: "u8 list \<Rightarrow> u16" where
  "l4_dest pkt = le16 (pkt ! 36) (pkt ! 37)"

datatype xdp_action = XDP_DROP | XDP_PASS | XDP_REDIRECT

text \<open>The six maps of the program.\<close>

record maps =
  map_protected_endpoints :: "(endpoint_key \<times> endpoint_info) list"
  map_src_rate :: "(u32, rate_limit_state) bpf_hash"
  map_conntrack :: "(u64, conntrack_entry) bpf_hash"
  map_blacklist :: "(u32, u64) bpf_hash"
  map_stats :: "u64 list"
  map_udp_challenges :: "(u32, udp_challenge_state) bpf_hash"

text \<open>
  The readings of \<^verbatim>\<open>bpf_ktime_get_ns\<close> that one run of the program can make, one for each
  place that calls it.
\<close>

record clock =
  t_blacklist :: u64
  t_rate_limit :: u64
  t_challenge :: u64
  t_challenge_retry :: u64

text \<open>
  \<^verbatim>\<open>xdp_minecraft_protection\<close>, in four parts that follow the source from its end to its
  start. Each returns the action (or the read past the buffer end that the handshake
  validator made), the maps as the run leaves them, and the table writes it attempted.
  Lines 452 to 482: the verdict of the validators, flow tracking, redirect.
\<close>

definition xdp_finish ::
    "int \<Rightarrow> u8 list \<Rightarrow> endpoint_key \<Rightarrow> maps \<Rightarrow> write_log \<Rightarrow> xdp_action res \<times> maps \<times> write_log" where
  "xdp_finish valid_protocol pkt key m log =
     (if valid_protocol = 0
      then (Returns XDP_DROP,
            m\<lparr>map_stats := update_stats STAT_BLOCKED_INVALID_PROTOCOL (map_stats m)\<rparr>, log)
      else
        (case conntrack_record (ip_saddr pkt) (ip_daddr pkt) (bpf_ntohs (l4_source pkt))
                (port key) (ip_protocol pkt) (map_conntrack m) of
           (conntrack', log') \<Rightarrow>
             (Returns XDP_REDIRECT,
              m\<lparr>map_conntrack := conntrack',
                map_stats := update_stats STAT_ALLOWED_PACKETS (map_stats m)\<rparr>,
              log @ log')))"

text \<open>Lines 434 to 450: the validator of the endpoint's protocol family.\<close>

definition xdp_validate ::
    "clock \<Rightarrow> nat \<Rightarrow> u8 list \<Rightarrow> endpoint_key \<Rightarrow> endpoint_info \<Rightarrow> maps \<Rightarrow> write_log
      \<Rightarrow> xdp_action res \<times> maps \<times> write_log" where
  "xdp_validate clk data pkt key endpoint m log =
     (if ip_protocol pkt = 6 \<and> protocol_type endpoint = 0 then
        (case validate_minecraft_java data pkt of
           ReadPastEnd a \<Rightarrow> (ReadPastEnd a, m, log)
         | Returns valid_protocol \<Rightarrow> xdp_finish valid_protocol pkt key m log)
      else if ip_protocol pkt = 17 \<and> protocol_type endpoint = 1 then
        (if validate_minecraft_bedrock pkt \<noteq> 0 then
           (case handle_udp_challenge (t_challenge clk) (t_challenge_retry clk) (ip_saddr pkt) pkt
                   (map_udp_challenges m) (map_stats m) of
              (challenge_result, challenges', stats', log') \<Rightarrow>
                if challenge_result = 0
                then (Returns XDP_DROP,
                      m\<lparr>map_udp_challenges := challenges',
                        map_stats := update_stats STAT_BLOCKED_CHALLENGE_FAILED stats'\<rparr>,
                      log @ log')
                else xdp_finish 1 pkt key
                       (m\<lparr>map_udp_challenges := challenges', map_stats := stats'\<rparr>) (log @ log'))
         else xdp_finish 0 pkt key m log)
      else xdp_finish 0 pkt key m log)"

text \<open>Lines 414 to 432: endpoint lookup, maintenance mode, rate limiting.\<close>

definition xdp_endpoint ::
    "clock \<Rightarrow> nat \<Rightarrow> u8 list \<Rightarrow> endpoint_key \<Rightarrow> maps \<Rightarrow> xdp_action res \<times> maps \<times> write_log" where
  "xdp_endpoint clk data pkt key m =
     (case lpm_trie_lookup_elem (map_protected_endpoints m) key of
        None \<Rightarrow> (Returns XDP_PASS, m, [])
      | Some endpoint \<Rightarrow>
          if maintenance_mode endpoint \<noteq> 0
          then (Returns XDP_DROP,
                m\<lparr>map_stats := update_stats STAT_BLOCKED_MAINTENANCE (map_stats m)\<rparr>, [])
          else
            (case update_rate_limit (t_rate_limit clk) (ip_saddr pkt) (rate_limit endpoint)
                    (burst_limit endpoint) (map_src_rate m) of
               (rate_result, src_rate', log) \<Rightarrow>
                 if rate_result < 0 then (Returns XDP_DROP, m\<lparr>map_src_rate := src_rate'\<rparr>, log)
                 else if rate_result = 0
                 then (Returns XDP_DROP,
                       m\<lparr>map_src_rate := src_rate',
                         map_stats := update_stats STAT_BLOCKED_RATE_LIMIT (map_stats m)\<rparr>, log)
                 else xdp_validate clk data pkt key endpoint (m\<lparr>map_src_rate := src_rate'\<rparr>) log))"

text \<open>Lines 366 to 412: headers, blacklist, lookup key.\<close>

definition xdp_minecraft_protection ::
    "clock \<Rightarrow> nat \<Rightarrow> u8 list \<Rightarrow> maps \<Rightarrow> xdp_action res \<times> maps \<times> write_log" where
  "xdp_minecraft_protection clk data pkt m =
     (let m0 = m\<lparr>map_stats := update_stats STAT_TOTAL_PACKETS (map_stats m)\<rparr> in
      if length pkt < 14 then (Returns XDP_DROP, m0, [])
      else if eth_h_proto pkt \<noteq> bpf_htons 0x0800 then (Returns XDP_PASS, m0, [])
      else if length pkt < 34 then (Returns XDP_DROP, m0, [])
      else
        (case is_blacklisted (t_blacklist clk) (ip_saddr pkt) (map_blacklist m0) of
           (blocked, blacklist') \<Rightarrow>
             (let m1 = m0\<lparr>map_blacklist := blacklist'\<rparr> in
              if blocked \<noteq> 0
              then (Returns XDP_DROP,
                    m1\<lparr>map_stats := update_stats STAT_BLOCKED_BLACKLIST (map_stats m1)\<rparr>, [])
              else if ip_protocol pkt = 6 then
                (if length pkt < 54 then (Returns XDP_DROP, m1, [])
                 else xdp_endpoint clk data pkt
                        \<lparr>prefix_len = 32, ip = ip_daddr pkt, port = bpf_ntohs (l4_dest pkt),
                         protocol = ip_protocol pkt\<rparr> m1)
              else if ip_protocol pkt = 17 then
                (if length pkt < 42 then (Returns XDP_DROP, m1, [])
                 else xdp_endpoint clk data pkt
                        \<lparr>prefix_len = 32, ip = ip_daddr pkt, port = bpf_ntohs (l4_dest pkt),
                         protocol = ip_protocol pkt\<rparr> m1)
              else (Returns XDP_PASS, m1, []))))"

section \<open>Runs of several packets\<close>

text \<open>
  \<open>rate_limit_burst n\<close> is the rate limiter called for \<open>n\<close> packets of one source that arrive
  at the same clock reading, each call on the table the call before left; it lists the
  return values in order.
\<close>

fun rate_limit_burst ::
    "nat \<Rightarrow> u64 \<Rightarrow> u32 \<Rightarrow> u32 \<Rightarrow> u32 \<Rightarrow> (u32, rate_limit_state) bpf_hash \<Rightarrow> int list" where
  "rate_limit_burst 0 ktime saddr rate burst src_rate = []"
| "rate_limit_burst (Suc n) ktime saddr rate burst src_rate =
     (case update_rate_limit ktime saddr rate burst src_rate of
        (r, src_rate', log) \<Rightarrow> r # rate_limit_burst n ktime saddr rate burst src_rate')"

section \<open>Concrete inputs\<close>

text \<open>
  A well-formed Minecraft handshake as the client sends it: declared length 50, packet
  identifier 0, protocol version 760 as the VarInt \<open>F8 05\<close>, a server address of 43
  characters with its length byte, port 25565 and next state 1; 51 bytes in all.
\<close>

definition handshake_760 :: "u8 list" where
  "handshake_760 = [0x32, 0x00, 0xF8, 0x05, 0x2B] @ replicate 43 0x61 @ [0x63, 0xDD, 0x01]"

text \<open>
  A ping packet (tag \<open>0x05\<close>) whose magic has its last byte altered, \<open>0x79\<close> for \<open>0x78\<close>.
\<close>

definition ping_altered_magic :: "u8 list" where
  "ping_altered_magic =
     [0x05, 0x00, 0xFF, 0xFF, 0x00, 0xFE, 0xFE, 0xFE, 0xFE,
      0xFD, 0xFD, 0xFD, 0xFD, 0x12, 0x34, 0x56, 0x79]"

text \<open>
  An Ethernet frame of 54 bytes: IPv4, TCP, from 192.0.2.7 port 50000 to 10.0.0.1 port 80.
\<close>

definition tcp_frame_port80 :: "u8 list" where
  "tcp_frame_port80 =
     [0x02, 0x00, 0x00, 0x00, 0x00, 0x01, 0x02, 0x00, 0x00, 0x00, 0x00, 0x02, 0x08, 0x00,
      0x45, 0x00, 0x00, 0x28, 0x00, 0x00, 0x40, 0x00, 0x40, 0x06, 0x00, 0x00,
      0xC0, 0x00, 0x02, 0x07, 0x0A, 0x00, 0x00, 0x01,
      0xC3, 0x50, 0x00, 0x50, 0x00, 0x00, 0x00, 0x01, 0x00, 0x00, 0x00, 0x00,
      0x50, 0x02, 0xFF, 0xFF, 0x00, 0x00, 0x00, 0x00]"

text \<open>
  An Ethernet frame of 54 bytes: IPv4, TCP, from 192.0.2.7 port 50000 to 10.0.0.1 port
  25565. Its first seven bytes, the destination hardware address 86:80:80:80:80:00 and the
  first byte 04 of the source hardware address, are what the handshake validator reads.
\<close>

definition tcp_frame_overlong_length :: "u8 list" where
  "tcp_frame_overlong_length =
     [0x86, 0x80, 0x80, 0x80, 0x80, 0x00, 0x04, 0x00, 0x00, 0x00, 0x00, 0x02, 0x08, 0x00,
      0x45, 0x00, 0x00, 0x28, 0x00, 0x00, 0x40, 0x00, 0x40, 0x06, 0x00, 0x00,
      0xC0, 0x00, 0x02, 0x07, 0x0A, 0x00, 0x00, 0x01,
      0xC3, 0x50, 0x63, 0xDD, 0x00, 0x00, 0x00, 0x01, 0x00, 0x00, 0x00, 0x00,
      0x50, 0x02, 0xFF, 0xFF, 0x00, 0x00, 0x00, 0x00]"

text \<open>
  The policy and the registry that \<^verbatim>\<open>add_protected_endpoint\<close> of the loader builds for the
  Java endpoint 10.0.0.1 port 25565 over TCP: prefix length 32, rate limit 1000, burst
  limit 2000.
\<close>

definition java_policy :: endpoint_info where
  "java_policy = \<lparr>origin_ip = 0x0100A8C0, origin_port = 25565, rate_limit = 1000,
                   burst_limit = 2000, protocol_type = 0, maintenance_mode = 0\<rparr>"

definition java_registry :: "(endpoint_key \<times> endpoint_info) list" where
  "java_registry =
     [(\<lparr>prefix_len = 32, ip = 0x0100000A, port = 25565, protocol = 6\<rparr>, java_policy)]"

definition maps_init :: "(endpoint_key \<times> endpoint_info) list \<Rightarrow> maps" where
  "maps_init registry =
     \<lparr>map_protected_endpoints = registry, map_src_rate = [], map_conntrack = [],
      map_blacklist = [], map_stats = [0, 0, 0, 0, 0, 0, 0, 0, 0, 0], map_udp_challenges = []\<rparr>"

definition clock_at :: "u64 \<Rightarrow> clock" where
  "clock_at ktime =
     \<lparr>t_blacklist = ktime, t_rate_limit = ktime, t_challenge = ktime, t_challenge_retry = ktime\<rparr>"

section \<open>The refill formula of the specification\<close>

text \<open>
  The refill as the specification words it, over unbounded integers:
  \<open>min(burst_limit, tokens + floor(elapsed_ms * rate_limit / 1000))\<close>. It is compared with
  \<open>refill_tokens\<close>, which is the source.
\<close>

definition spec_new_tokens :: "nat \<Rightarrow> nat \<Rightarrow> nat \<Rightarrow> nat \<Rightarrow> nat" where
  "spec_new_tokens stored elapsed_ms rate burst = min burst (stored + elapsed_ms * rate div 1000)"

section \<open>Full tables\<close>

text \<open>
  A rate table and a challenge table that hold as many keys as they have room for: the
  sources 0 to 99999, and 0 to 9999. A table stored by the kernel never holds more keys
  than \<^verbatim>\<open>max_entries\<close>, and holds each key once: \<open>wf_hash\<close>.
\<close>

definition full_rate_table :: "(u32, rate_limit_state) bpf_hash" where
  "full_rate_table =
     map (\<lambda>i. (word_of_nat i, \<lparr>last_update = 0, tokens = 0, last_burst = 0\<rparr>)) [0..<100000]"

definition full_challenge_table :: "(u32, udp_challenge_state) bpf_hash" where
  "full_challenge_table =
     map (\<lambda>i. (word_of_nat i, \<lparr>timestamp = 0, challenge_cookie = 0, challenge_sent = 1\<rparr>))
       [0..<10000]"

definition wf_hash :: "nat \<Rightarrow> ('k, 'v) bpf_hash \<Rightarrow> bool" where
  "wf_hash max_entries m \<longleftrightarrow> distinct (map fst m) \<and> length m \<le> max_entries"

text \<open>
  An Ethernet frame of 42 bytes: IPv4, UDP, from 192.0.2.7 port 50000 to 10.0.0.2 port
  19132, with the policy and the registry of that Bedrock endpoint. The frame starts with
  the destination hardware address 06:00:00:00:00:01.
\<close>

definition udp_frame_bedrock :: "u8 list" where
  "udp_frame_bedrock =
     [0x06, 0x00, 0x00, 0x00, 0x00, 0x01, 0x02, 0x00, 0x00, 0x00, 0x00, 0x02, 0x08, 0x00,
      0x45, 0x00, 0x00, 0x1C, 0x00, 0x00, 0x40, 0x00, 0x40, 0x11, 0x00, 0x00,
      0xC0, 0x00, 0x02, 0x07, 0x0A, 0x00, 0x00, 0x02,
      0xC3, 0x50, 0x4A, 0xBC, 0x00, 0x08, 0x00, 0x00]"

definition bedrock_policy :: endpoint_info where
  "bedrock_policy = \<lparr>origin_ip = 0x0200A8C0, origin_port = 19132, rate_limit = 1000,
                      burst_limit = 2000, protocol_type = 1, maintenance_mode = 0\<rparr>"

definition bedrock_registry :: "(endpoint_key \<times> endpoint_info) list" where
  "bedrock_registry =
     [(\<lparr>prefix_len = 32, ip = 0x0200000A, port = 19132, protocol = 17\<rparr>, bedrock_policy)]"

section \<open>Properties of the flow key\<close>

text \<open>
  C10. The flow key is not injective. The source port is shifted to bits 48 to 63, where the
  upper half of the source address already lies; the destination port is shifted to bits 32
  to 47, the lower half of the source address; the protocol is shifted to bits 24 to 31, the
  top byte of the destination address. Each overlap gives two different 5-tuples with the
  same key. When the two flows of the first pair are admitted one after the other, starting
  from an empty flow table, the second leaves the table as it is: one entry, which records
  the 5-tuple of the first flow.
\<close>

theorem hash_5tuple_not_injective:
  "(\<exists>s d sp dp p s' d' sp' dp' p'.
      (s, d, sp, dp, p) \<noteq> (s', d', sp', dp', p') \<and>
      hash_5tuple s d sp dp p = hash_5tuple s' d' sp' dp' p') \<and>
   hash_5tuple 0x00010000 7 0 9 6 = hash_5tuple 0 7 1 9 6 \<and>
   hash_5tuple 1 7 0 0 6 = hash_5tuple 0 7 0 1 6 \<and>
   hash_5tuple 1 0 0 0 1 = hash_5tuple 1 0x01000000 0 0 0 \<and>
   (let first = fst (conntrack_record 0x00010000 7 0 9 6 []);
        second = fst (conntrack_record 0 7 1 9 6 first) in
    second = first \<and>
    bpf_map_lookup_elem second (hash_5tuple 0 7 1 9 6) =
      Some \<lparr>src_ip = 0x00010000, dst_ip = 7, src_port = 0, dst_port = 9,
            ct_protocol = 6, ct_state = 1, challenge_id = 0\<rparr> \<and>
    length second = 1)"
proof -
  have collide: "hash_5tuple 0x00010000 7 0 9 6 = hash_5tuple 0 7 1 9 6"
    by (simp add: hash_5tuple_def)
  have differ: "(0x00010000 :: u32, 7 :: u32, 0 :: u16, 9 :: u16, 6 :: u8) \<noteq> (0, 7, 1, 9, 6)"
    by simp
  have ex: "\<exists>s d sp dp p s' d' sp' dp' p'.
      (s, d, sp, dp, p) \<noteq> (s', d', sp', dp', p') \<and>
      hash_5tuple s d sp dp p = hash_5tuple s' d' sp' dp' p'"
    using collide differ by blast
  have dport: "hash_5tuple 1 7 0 0 6 = hash_5tuple 0 7 0 1 6"
    by (simp add: hash_5tuple_def)
  have proto: "hash_5tuple 1 0 0 0 1 = hash_5tuple 1 0x01000000 0 0 0"
    by (simp add: hash_5tuple_def)
  have tracker: "(let first = fst (conntrack_record 0x00010000 7 0 9 6 []);
        second = fst (conntrack_record 0 7 1 9 6 first) in
    second = first \<and>
    bpf_map_lookup_elem second (hash_5tuple 0 7 1 9 6) =
      Some \<lparr>src_ip = 0x00010000, dst_ip = 7, src_port = 0, dst_port = 9,
            ct_protocol = 6, ct_state = 1, challenge_id = 0\<rparr> \<and>
    length second = 1)"
    by (simp add: conntrack_record_def bpf_map_lookup_elem_def bpf_map_update_elem_def
        map_conntrack_max_entries_def hash_5tuple_def Let_def)
  show ?thesis
    using ex collide dport proto tracker by blast
qed

section \<open>Evaluation of the concrete inputs\<close>

lemmas hash_defs =
  bpf_map_lookup_elem_def bpf_map_update_elem_def bpf_map_delete_elem_def store_in_place_def

lemma rate_limit_burst_numeral:
  "rate_limit_burst (numeral k) ktime saddr rate burst src_rate =
     (case update_rate_limit ktime saddr rate burst src_rate of
        (r, src_rate', log) \<Rightarrow>
          r # rate_limit_burst (pred_numeral k) ktime saddr rate burst src_rate')"
  by (simp add: numeral_eq_Suc)

lemma tcp_frame_port80_fields:
  "length tcp_frame_port80 = 54"
  "eth_h_proto tcp_frame_port80 = bpf_htons 0x0800"
  "ip_protocol tcp_frame_port80 = 6"
  "ip_saddr tcp_frame_port80 = 0x070200C0"
  "ip_daddr tcp_frame_port80 = 0x0100000A"
  "bpf_ntohs (l4_dest tcp_frame_port80) = 80"
  "bpf_ntohs (l4_source tcp_frame_port80) = 50000"
  by (simp_all add: tcp_frame_port80_def eth_h_proto_def ip_protocol_def ip_saddr_def
      ip_daddr_def l4_dest_def l4_source_def le16_def le32_def bpf_htons_def bpf_ntohs_def)

lemma tcp_frame_port80_java: "validate_minecraft_java data tcp_frame_port80 = Returns 0"
  by (simp add: tcp_frame_port80_def validate_minecraft_java_def java_parse_length_def
      pkt_read_def)

lemma tcp_frame_overlong_length_fields:
  "length tcp_frame_overlong_length = 54"
  "eth_h_proto tcp_frame_overlong_length = bpf_htons 0x0800"
  "ip_protocol tcp_frame_overlong_length = 6"
  "ip_saddr tcp_frame_overlong_length = 0x070200C0"
  "ip_daddr tcp_frame_overlong_length = 0x0100000A"
  "bpf_ntohs (l4_dest tcp_frame_overlong_length) = 25565"
  "bpf_ntohs (l4_source tcp_frame_overlong_length) = 50000"
  by (simp_all add: tcp_frame_overlong_length_def eth_h_proto_def ip_protocol_def ip_saddr_def
      ip_daddr_def l4_dest_def l4_source_def le16_def le32_def bpf_htons_def bpf_ntohs_def)

lemma udp_frame_bedrock_fields:
  "length udp_frame_bedrock = 42"
  "eth_h_proto udp_frame_bedrock = bpf_htons 0x0800"
  "ip_protocol udp_frame_bedrock = 17"
  "ip_saddr udp_frame_bedrock = 0x070200C0"
  "ip_daddr udp_frame_bedrock = 0x0200000A"
  "bpf_ntohs (l4_dest udp_frame_bedrock) = 19132"
  "bpf_ntohs (l4_source udp_frame_bedrock) = 50000"
  "validate_minecraft_bedrock udp_frame_bedrock = 1"
  by (simp_all add: udp_frame_bedrock_def eth_h_proto_def ip_protocol_def ip_saddr_def
      ip_daddr_def l4_dest_def l4_source_def le16_def le32_def bpf_htons_def bpf_ntohs_def
      validate_minecraft_bedrock_def)

lemma java_registry_port80:
  "lpm_trie_lookup_elem java_registry
     \<lparr>prefix_len = 32, ip = 0x0100000A, port = 80, protocol = 6\<rparr> = Some java_policy"
  by (simp add: java_registry_def lpm_trie_lookup_elem_def lpm_covers_def key_bits_def
      key_data_def byte_bits_def)

lemma java_registry_port25565:
  "lpm_trie_lookup_elem java_registry
     \<lparr>prefix_len = 32, ip = 0x0100000A, port = 25565, protocol = 6\<rparr> = Some java_policy"
  by (simp add: java_registry_def lpm_trie_lookup_elem_def lpm_covers_def)

lemma bedrock_registry_lookup:
  "lpm_trie_lookup_elem bedrock_registry
     \<lparr>prefix_len = 32, ip = 0x0200000A, port = 19132, protocol = 17\<rparr> = Some bedrock_policy"
  by (simp add: bedrock_registry_def lpm_trie_lookup_elem_def lpm_covers_def)

lemma word_of_nat_table_absent:
  assumes "n \<le> unat (k :: u32)"
  shows "map_of (map (\<lambda>i. (word_of_nat i :: u32, v)) [0..<n]) k = None"
proof -
  have "k \<noteq> word_of_nat i" if "i < n" for i
  proof
    assume "k = word_of_nat i"
    then have "unat k = i mod 2 ^ 32" by (simp add: unat_of_nat)
    also have "\<dots> \<le> i" by simp
    finally show False using that assms by simp
  qed
  then show ?thesis by (auto simp: map_of_eq_None_iff image_iff)
qed

lemma full_rate_table_length: "length full_rate_table = 100000"
  by (simp add: full_rate_table_def)

lemma full_rate_table_absent: "100000 \<le> unat k \<Longrightarrow> map_of full_rate_table k = None"
  unfolding full_rate_table_def by (rule word_of_nat_table_absent)

lemma full_challenge_table_length: "length full_challenge_table = 10000"
  by (simp add: full_challenge_table_def)

lemma full_challenge_table_absent: "10000 \<le> unat k \<Longrightarrow> map_of full_challenge_table k = None"
  unfolding full_challenge_table_def by (rule word_of_nat_table_absent)

section \<open>Tables stay within their capacity\<close>

text \<open>
  The three table helpers keep a table well-formed: its keys stay distinct and their number
  stays within \<^verbatim>\<open>max_entries\<close>.
\<close>

lemma length_alist_update:
  "length (AList.update k v al) = (if k \<in> fst ` set al then length al else Suc (length al))"
  by (induct al) auto

lemma length_delete_less:
  assumes "map_of m k = Some v"
  shows "length (AList.delete k m) < length m"
proof -
  from assms have "(k, v) \<in> set m" by (rule map_of_SomeD)
  then have "length (filter (\<lambda>(k', _). k \<noteq> k') m) < length m"
    by (rule length_filter_less) simp
  then show ?thesis by (simp add: AList.delete_eq)
qed

lemma lookup_after_update:
  "bpf_map_lookup_elem (AList.update k v m) k' = (if k' = k then Some v else bpf_map_lookup_elem m k')"
  by (simp add: bpf_map_lookup_elem_def update_conv')

lemma lookup_after_delete:
  "bpf_map_lookup_elem (bpf_map_delete_elem m k) k' =
     (if k' = k then None else bpf_map_lookup_elem m k')"
  by (simp add: bpf_map_lookup_elem_def bpf_map_delete_elem_def delete_conv')

lemma wf_hash_update:
  assumes "wf_hash max_entries m" and "bpf_map_update_elem max_entries m k v = Some m'"
  shows "wf_hash max_entries m'"
proof -
  from assms(2) have m': "m' = AList.update k v m"
    by (auto simp: bpf_map_update_elem_def split: option.splits if_splits)
  have "length (AList.update k v m) \<le> max_entries"
  proof (cases "k \<in> fst ` set m")
    case True
    with assms(1) show ?thesis by (simp add: wf_hash_def length_alist_update)
  next
    case False
    then have "map_of m k = None" by (simp add: map_of_eq_None_iff)
    with assms(2) have "length m < max_entries"
      by (simp add: bpf_map_update_elem_def split: if_splits)
    with False show ?thesis by (simp add: length_alist_update)
  qed
  with assms(1) show ?thesis
    by (simp add: m' wf_hash_def distinct_update)
qed

lemma wf_hash_delete:
  assumes "wf_hash max_entries m"
  shows "wf_hash max_entries (bpf_map_delete_elem m k)"
  using assms length_delete_le [of k m]
  by (simp add: wf_hash_def bpf_map_delete_elem_def distinct_delete)

lemma wf_hash_store:
  assumes "wf_hash max_entries m" and "bpf_map_lookup_elem m k = Some old"
  shows "wf_hash max_entries (store_in_place m k v)"
proof -
  from assms(2) have "k \<in> fst ` set m"
    by (auto simp: bpf_map_lookup_elem_def dest: map_of_SomeD intro: rev_image_eqI)
  with assms(1) show ?thesis
    by (simp add: wf_hash_def store_in_place_def distinct_update length_alist_update)
qed

section \<open>Datagram validator\<close>

text \<open>
  A ping packet of at least 17 bytes is accepted whatever follows its tag.
\<close>

lemma bedrock_ping_any_payload:
  assumes "17 \<le> length pkt" and "pkt ! 0 = 0x05 \<or> pkt ! 0 = 0x15"
  shows "validate_minecraft_bedrock pkt = 1"
  using assms by (auto simp: validate_minecraft_bedrock_def)

text \<open>
  C1. The code at a ping packet with an altered magic: the tag is \<open>0x05\<close>, the sixteenth
  byte after it is \<open>0x79\<close> where the magic has \<open>0x78\<close>, and the validator returns 1. The
  claim wants 0 there. The comparison with the magic is in the source, but the branch
  that follows a failed comparison falls through to the \<^verbatim>\<open>return 1\<close> of the other tags.
\<close>

theorem bedrock_accepts_altered_magic:
  "\<not> raknet_magic_at ping_altered_magic \<and> validate_minecraft_bedrock ping_altered_magic = 1"
  by (simp add: validate_minecraft_bedrock_def raknet_magic_at_def ping_altered_magic_def)

section \<open>Handshake validator\<close>

text \<open>
  When the length and the version are single bytes (no continuation bit), the validator
  decides as the three ranges say: length in [5, 100], packet identifier 0, version at
  least 4 (a single byte cannot exceed 1000).
\<close>

lemma no_continuation_bit:
  assumes "(b :: u8) AND 0x80 = 0"
  shows "b \<le> 0x7F"
proof -
  have "(0x7F OR 0x80 :: u8) = - 1" by simp
  then have "b AND (0x7F OR 0x80) = b AND - 1" by (rule arg_cong)
  then have "b = b AND (0x7F OR 0x80)" by (simp only: and.right_neutral)
  also have "\<dots> = (b AND 0x7F) OR (b AND 0x80)" by (rule bit.conj_disj_distrib)
  also have "\<dots> = b AND 0x7F" using assms by simp
  finally have "b = b AND 0x7F" .
  moreover have "b AND 0x7F \<le> 0x7F" by (rule word_and_le1)
  ultimately show ?thesis by simp
qed

lemma java_single_byte_fields:
  assumes "5 \<le> length pkt" and "pkt ! 0 AND 0x80 = 0" and "pkt ! 2 AND 0x80 = 0"
  shows "validate_minecraft_java data pkt =
           Returns (if 5 \<le> pkt ! 0 \<and> pkt ! 0 \<le> 100 \<and> pkt ! 1 = 0 \<and> 4 \<le> pkt ! 2 then 1 else 0)"
proof -
  have up: "uint (ucast b :: u32) = uint b" for b :: u8
    by (simp add: uint_up_ucast is_up)
  from no_continuation_bit [OF assms(3)] have "uint (pkt ! 2) \<le> 127"
    by (simp add: word_le_def)
  then have v: "\<not> (1000 :: u32) < ucast (pkt ! 2)"
    by (simp add: word_less_def up)
  have reads: "pkt_read pkt 0 = Returns (pkt ! 0)" "pkt_read pkt 1 = Returns (pkt ! 1)"
    "pkt_read pkt 2 = Returns (pkt ! 2)"
    using assms(1) by (auto simp: pkt_read_def)
  have len: "java_parse_length (data + length pkt) pkt = Returns (Inr (1, ucast (pkt ! 0)))"
    using assms(2) by (simp add: java_parse_length_def reads)
  have ver: "java_parse_version (data + length pkt) pkt 2 = Returns (ucast (pkt ! 2))"
    using assms(3) by (simp add: java_parse_version_def reads)
  have cmp: "(ucast (pkt ! 0) :: u32) < 5 \<longleftrightarrow> pkt ! 0 < 5"
    "(100 :: u32) < ucast (pkt ! 0) \<longleftrightarrow> 100 < pkt ! 0"
    "(ucast (pkt ! 2) :: u32) < 4 \<longleftrightarrow> pkt ! 2 < 4"
    by (simp_all add: word_less_def up)
  have ver': "java_parse_version (data + length pkt) pkt (Suc (Suc 0)) = Returns (ucast (pkt ! 2))"
    using ver by (simp add: numeral_2_eq_2)
  have read1: "pkt_read pkt (Suc 0) = Returns (pkt ! Suc 0)"
    using reads(2) by simp
  from assms(1) show ?thesis
    by (auto simp: validate_minecraft_java_def Let_def len ver' read1 v cmp not_le not_less)
qed

text \<open>
  Reads. On a buffer of more than 12 bytes whose byte 12 has no continuation bit, the
  validator makes no read past the buffer end: the length is read from the first five
  bytes, and the version loop stops at byte 12 at the latest.
\<close>

lemma java_length_loop_in_bounds:
  assumes "5 \<le> length pkt" and "offset \<le> 5"
  shows "java_length_loop data_end pkt offset len = Returns (Inl 0) \<or>
         (\<exists>offset' len'. java_length_loop data_end pkt offset len = Returns (Inr (offset', len')) \<and>
            offset' \<le> 5)"
  using assms
proof (induction data_end pkt offset len rule: java_length_loop.induct)
  case (1 data_end pkt offset len)
  show ?case
  proof (cases "offset < 5")
    case False
    with "1.prems" show ?thesis by simp
  next
    case True
    with "1.prems" have read: "pkt_read pkt offset = Returns (pkt ! offset)"
      by (simp add: pkt_read_def)
    show ?thesis
    proof (cases "pkt ! offset AND 0x80 \<noteq> 0 \<and> \<not> offset + 1 > data_end")
      case False
      with True read "1.prems" show ?thesis by auto
    next
      case continue: True
      from True have "offset + 1 \<le> 5" by simp
      with "1.IH" [OF True read] continue "1.prems"(1)
      have "java_length_loop data_end pkt (offset + 1)
              (len OR push_bit (7 * (offset - 0)) (ucast (pkt ! offset AND 0x7F))) = Returns (Inl 0) \<or>
            (\<exists>offset' len'. java_length_loop data_end pkt (offset + 1)
              (len OR push_bit (7 * (offset - 0)) (ucast (pkt ! offset AND 0x7F))) =
                Returns (Inr (offset', len')) \<and> offset' \<le> 5)"
        by simp
      moreover have "java_length_loop data_end pkt offset len =
          java_length_loop data_end pkt (offset + 1)
              (len OR push_bit (7 * (offset - 0)) (ucast (pkt ! offset AND 0x7F)))"
        using True read continue
        by (subst java_length_loop.simps) simp
      ultimately show ?thesis by simp
    qed
  qed
qed

lemma java_version_loop_in_bounds:
  assumes "stop < length pkt" and "pkt ! stop AND 0x80 = 0" and "offset \<le> stop"
  shows "\<exists>offset' pv. java_version_loop data_end pkt offset protocol_version =
           Returns (offset', pv) \<and> offset' \<le> stop"
  using assms
proof (induction data_end pkt offset protocol_version rule: java_version_loop.induct)
  case (1 data_end pkt offset protocol_version)
  show ?case
  proof (cases "offset < data_end")
    case False
    with "1.prems" show ?thesis by simp
  next
    case True
    from "1.prems" have read: "pkt_read pkt offset = Returns (pkt ! offset)"
      by (simp add: pkt_read_def)
    show ?thesis
    proof (cases "pkt ! offset AND 0x80 \<noteq> 0")
      case False
      with True read "1.prems" show ?thesis by simp
    next
      case continue: True
      with "1.prems" have "offset \<noteq> stop" by auto
      with "1.prems" have "offset + 1 \<le> stop" by simp
      from "1.IH" [OF True read continue "1.prems"(1,2) this]
      obtain offset' pv where
        "java_version_loop data_end pkt (offset + 1)
           (protocol_version OR push_bit (7 * (offset - 1)) (ucast (pkt ! offset AND 0x7F))) =
         Returns (offset', pv)" "offset' \<le> stop"
        by blast
      moreover have "java_version_loop data_end pkt offset protocol_version =
          java_version_loop data_end pkt (offset + 1)
           (protocol_version OR push_bit (7 * (offset - 1)) (ucast (pkt ! offset AND 0x7F)))"
        using True read continue by (subst java_version_loop.simps) simp
      ultimately show ?thesis by simp
    qed
  qed
qed

lemma java_parse_length_in_bounds:
  assumes "5 \<le> length pkt"
  shows "(\<exists>r. java_parse_length data_end pkt = Returns (Inl r)) \<or>
         (\<exists>offset len. java_parse_length data_end pkt = Returns (Inr (offset, len)) \<and> offset \<le> 5)"
proof -
  from assms have read: "pkt_read pkt 0 = Returns (pkt ! 0)" by (auto simp: pkt_read_def)
  show ?thesis
  proof (cases "pkt ! 0 AND 0x80 \<noteq> 0")
    case False
    with read show ?thesis by (simp add: java_parse_length_def)
  next
    case True
    from java_length_loop_in_bounds [OF assms, of 1 data_end "ucast (pkt ! 0 AND 0x7F)"]
    consider "java_length_loop data_end pkt 1 (ucast (pkt ! 0 AND 0x7F)) = Returns (Inl 0)"
      | offset' len' where
        "java_length_loop data_end pkt 1 (ucast (pkt ! 0 AND 0x7F)) = Returns (Inr (offset', len'))"
        "offset' \<le> 5"
      by auto
    then show ?thesis
    proof cases
      case 1
      with read True show ?thesis by (simp add: java_parse_length_def)
    next
      case 2
      with assms have "pkt_read pkt offset' = Returns (pkt ! offset') \<or> \<not> offset' < 5"
        by (simp add: pkt_read_def)
      with 2 read True show ?thesis
        by (auto simp: java_parse_length_def)
    qed
  qed
qed

lemma java_parse_version_in_bounds:
  assumes "stop < length pkt" and "pkt ! stop AND 0x80 = 0" and "offset < stop"
  shows "\<exists>pv. java_parse_version data_end pkt offset = Returns pv"
proof -
  from assms have read: "pkt_read pkt offset = Returns (pkt ! offset)" by (simp add: pkt_read_def)
  show ?thesis
  proof (cases "pkt ! offset AND 0x80 \<noteq> 0")
    case False
    with read show ?thesis by (simp add: java_parse_version_def)
  next
    case True
    from assms have "offset + 1 \<le> stop" by simp
    from java_version_loop_in_bounds [OF assms(1,2) this]
    obtain offset' pv where loop:
      "java_version_loop data_end pkt (offset + 1) (ucast (pkt ! offset AND 0x7F)) =
         Returns (offset', pv)" "offset' \<le> stop"
      by blast
    with assms have "pkt_read pkt offset' = Returns (pkt ! offset')" by (simp add: pkt_read_def)
    with loop read True show ?thesis
      by (simp add: java_parse_version_def)
  qed
qed

lemma validate_minecraft_java_in_bounds:
  assumes "12 < length pkt" and "pkt ! 12 AND 0x80 = 0"
  shows "\<exists>r. validate_minecraft_java data pkt = Returns r"
proof -
  from assms have len: "5 \<le> length pkt" by simp
  from java_parse_length_in_bounds [OF len, of "data + length pkt"]
  consider r where "java_parse_length (data + length pkt) pkt = Returns (Inl r)"
    | offset l where "java_parse_length (data + length pkt) pkt = Returns (Inr (offset, l))"
      "offset \<le> 5"
    by blast
  then show ?thesis
  proof cases
    case 1
    then show ?thesis by (simp add: validate_minecraft_java_def Let_def)
  next
    case 2
    with assms have read: "pkt_read pkt offset = Returns (pkt ! offset)"
      by (simp add: pkt_read_def)
    from 2 have "offset + 1 < 12" by simp
    from java_parse_version_in_bounds [OF assms this]
    obtain pv where "java_parse_version (data + length pkt) pkt (offset + 1) = Returns pv"
      by blast
    with 2 read show ?thesis
      by (simp add: validate_minecraft_java_def Let_def)
  qed
qed

text \<open>
  The 5-byte buffer reads past its end at every address but 0, and a buffer that starts
  with the over-long length VarInt is accepted whatever follows; the handshake of version
  760 is rejected whatever follows its first four bytes.
\<close>

lemma java_reads_past_end:
  assumes "0 < data"
  shows "validate_minecraft_java data [0x05, 0x00, 0x84, 0x80, 0x80] = ReadPastEnd 5"
  using assms
  by (simp add: validate_minecraft_java_def java_parse_length_def java_parse_version_def
      pkt_read_def)

lemma java_overlong_length_accepted:
  "validate_minecraft_java data ([0x86, 0x80, 0x80, 0x80, 0x80, 0x00, 0x04] @ rest) = Returns 1"
  by (simp add: validate_minecraft_java_def java_parse_length_def java_parse_version_def
      pkt_read_def nth_append)

lemma tcp_frame_overlong_length_java:
  "validate_minecraft_java data tcp_frame_overlong_length = Returns 1"
  using java_overlong_length_accepted [of data "drop 7 tcp_frame_overlong_length"]
  by (simp add: tcp_frame_overlong_length_def)

lemma java_rejects_760_prefix:
  assumes "rest \<noteq> []"
  shows "validate_minecraft_java data ([0x32, 0x00, 0xF8, 0x05] @ rest) = Returns 0"
  using assms
  by (simp add: validate_minecraft_java_def java_parse_length_def java_parse_version_def
      pkt_read_def nth_append Suc_le_eq)

text \<open>
  C2. The code at a frame and at a buffer, placed at the address \<open>0xffff888000001000\<close>.
  The frame of 54 bytes starts with a length VarInt of five bytes that all have the
  continuation bit, which is over the 5-byte budget: the validator returns 1 and the
  pipeline redirects the frame. The buffer has 5 bytes: length 5, packet identifier 0,
  and a version VarInt whose three bytes all have the continuation bit; the validator
  reads \<^verbatim>\<open>pkt[5]\<close>, one byte past the buffer end, because its guard compares the index 5
  with the address \<^verbatim>\<open>data_end\<close>. The claim wants a rejection in both.
\<close>

theorem java_validator_reads_past_end:
  "validate_minecraft_java 0xffff888000001000 tcp_frame_overlong_length = Returns 1 \<and>
   fst (xdp_minecraft_protection (clock_at 5000000000) 0xffff888000001000
          tcp_frame_overlong_length (maps_init java_registry)) = Returns XDP_REDIRECT \<and>
   validate_minecraft_java 0xffff888000001000 [0x05, 0x00, 0x84, 0x80, 0x80] = ReadPastEnd 5"
proof -
  have frame: "fst (xdp_minecraft_protection (clock_at 5000000000) 0xffff888000001000
          tcp_frame_overlong_length (maps_init java_registry)) = Returns XDP_REDIRECT"
    by (simp add: java_registry_port25565 xdp_minecraft_protection_def
        tcp_frame_overlong_length_fields tcp_frame_overlong_length_java is_blacklisted_def
        maps_init_def clock_at_def xdp_endpoint_def xdp_validate_def xdp_finish_def
        update_rate_limit_def get_current_time_def hash_defs java_policy_def
        map_src_rate_max_entries_def conntrack_record_def map_conntrack_max_entries_def
        Let_def split: prod.splits)
  have short: "validate_minecraft_java 0xffff888000001000 [0x05, 0x00, 0x84, 0x80, 0x80] =
      ReadPastEnd 5"
    by (simp add: validate_minecraft_java_def java_parse_length_def java_parse_version_def
        pkt_read_def)
  from frame short show ?thesis
    by (simp add: tcp_frame_overlong_length_java)
qed

text \<open>
  C8. The code at the well-formed handshake with declared length 50, packet identifier 0
  and protocol version 760: the validator returns 0. The claim wants 1. The second byte of
  the version VarInt is shifted by 7 times the offset of that byte less one, which is 14
  here, where the VarInt encoding has 7; the version the code computes is 82040.
\<close>

theorem java_rejects_version_760:
  "length handshake_760 = 51 \<and>
   java_parse_length (4096 + 51) handshake_760 = Returns (Inr (1, 50)) \<and>
   handshake_760 ! 1 = 0 \<and>
   java_parse_version (4096 + 51) handshake_760 2 = Returns 82040 \<and>
   validate_minecraft_java 4096 handshake_760 = Returns 0"
  by (simp add: handshake_760_def validate_minecraft_java_def java_parse_length_def
      java_parse_version_def pkt_read_def)

section \<open>Counters\<close>

text \<open>
  C4. The code at the two challenge counters: their indices are 10 and 11, the array has
  10 slots, and \<open>update_stats\<close> leaves every counters array as it is. So the gate, on the
  first packet of source 192.0.2.7 (a new challenge is issued) and on its next packet 150
  milliseconds later (the challenge is passed), leaves all ten counters at 0. The claim
  wants each of the two tallies to go up by 1.
\<close>

theorem challenge_counters_unreachable:
  "update_stats STAT_UDP_CHALLENGES_SENT stats = stats \<and>
   update_stats STAT_UDP_CHALLENGES_PASSED stats = stats \<and>
   handle_udp_challenge 1000000000 1000000000 0x070200C0 (replicate 42 0x06) []
       (replicate 10 0) =
     (0, [(0x070200C0, \<lparr>timestamp = 1000, challenge_cookie = 0x07020328, challenge_sent = 1\<rparr>)],
      replicate 10 0, [(Map_udp_challenges, True)]) \<and>
   handle_udp_challenge 1150000000 1150000000 0x070200C0 (replicate 42 0x06)
       [(0x070200C0, \<lparr>timestamp = 1000, challenge_cookie = 0x07020328, challenge_sent = 1\<rparr>)]
       (replicate 10 0) =
     (1, [], replicate 10 0, [])"
  by (simp add: handle_udp_challenge.simps update_stats_def map_stats_max_entries_def hash_defs
      map_udp_challenges_max_entries_def new_challenge_def)

section \<open>Rate limiter\<close>

text \<open>
  Packets of a known source at the clock reading of its last update: nothing is refilled,
  and each allowed packet takes one token. A burst from a new source, into a table with
  room, is allowed \<open>burst_limit + 1\<close> packets: the first one creates the state with
  \<open>burst_limit\<close> tokens, and each of these then pays for one more.
\<close>

lemma refill_tokens_same_instant:
  assumes "stored \<le> burst"
  shows "refill_tokens stored 0 rate burst = stored"
  using assms by (simp add: refill_tokens_def Let_def not_less [symmetric])

lemma update_rate_limit_same_instant:
  assumes "bpf_map_lookup_elem src_rate saddr = Some st"
    and "last_update st = ucast (get_current_time ktime)"
    and "tokens st \<le> burst"
  shows "update_rate_limit ktime saddr rate burst src_rate =
           (if tokens st = 0 then (0, store_in_place src_rate saddr st, [])
            else (1, store_in_place src_rate saddr (st\<lparr>tokens := tokens st - 1\<rparr>), []))"
proof -
  have same: "st\<lparr>last_update := ucast (get_current_time ktime)\<rparr> = st"
    using assms(2) [symmetric] by simp
  have same': "st\<lparr>tokens := tokens st - 1, last_update := ucast (get_current_time ktime)\<rparr> =
                 st\<lparr>tokens := tokens st - 1\<rparr>"
    using assms(2) [symmetric] by simp
  from assms(1,3) show ?thesis
    by (simp add: update_rate_limit_def refill_tokens_same_instant Let_def assms(2) same same')
qed

lemma burst_known_source:
  assumes "bpf_map_lookup_elem src_rate saddr = Some st"
    and "last_update st = ucast (get_current_time ktime)"
    and "tokens st \<le> burst"
    and "unat (tokens st) = n"
  shows "rate_limit_burst (Suc n) ktime saddr rate burst src_rate = replicate n 1 @ [0]"
  using assms
proof (induction n arbitrary: src_rate st)
  case 0
  then have "tokens st = 0" by (simp add: unat_eq_0)
  with 0 show ?case by (simp add: update_rate_limit_same_instant)
next
  case (Suc n)
  let ?st = "st\<lparr>tokens := tokens st - 1\<rparr>"
  let ?tbl = "store_in_place src_rate saddr ?st"
  from Suc.prems have nz: "tokens st \<noteq> 0" by auto
  have stored: "bpf_map_lookup_elem ?tbl saddr = Some ?st"
    by (simp add: hash_defs update_conv')
  have time: "last_update ?st = ucast (get_current_time ktime)"
    using Suc.prems by simp
  have "tokens st - 1 \<le> tokens st"
    using nz by (simp add: word_le_nat_alt unat_minus_one)
  with Suc.prems have le: "tokens ?st \<le> burst" by simp
  have count: "unat (tokens ?st) = n"
    using nz Suc.prems by (simp add: unat_minus_one)
  have step: "update_rate_limit ktime saddr rate burst src_rate = (1, ?tbl, [])"
    using Suc.prems nz by (simp add: update_rate_limit_same_instant)
  have "rate_limit_burst (Suc (Suc n)) ktime saddr rate burst src_rate =
          1 # rate_limit_burst (Suc n) ktime saddr rate burst ?tbl"
    by (simp add: step del: rate_limit_burst.simps(2)
        add: rate_limit_burst.simps(2) [of "Suc n" ktime saddr rate burst src_rate])
  also have "\<dots> = 1 # replicate n 1 @ [0]"
    using Suc.IH [OF stored time le count] by simp
  finally show ?case by simp
qed

lemma burst_allows_one_more:
  assumes "bpf_map_lookup_elem src_rate saddr = None"
    and "length src_rate < map_src_rate_max_entries"
  shows "rate_limit_burst (unat burst + 2) ktime saddr rate burst src_rate =
           replicate (unat burst + 1) 1 @ [0]"
proof -
  let ?st = "\<lparr>last_update = ucast (get_current_time ktime), tokens = burst, last_burst = 0\<rparr>"
  let ?tbl = "AList.update saddr ?st src_rate"
  have first: "update_rate_limit ktime saddr rate burst src_rate = (1, ?tbl, [(Map_src_rate, True)])"
    using assms by (simp add: update_rate_limit_def hash_defs Let_def)
  have stored: "bpf_map_lookup_elem ?tbl saddr = Some ?st"
    by (simp add: hash_defs update_conv')
  have rest: "rate_limit_burst (Suc (unat burst)) ktime saddr rate burst ?tbl =
                replicate (unat burst) 1 @ [0]"
    by (rule burst_known_source [OF stored]) simp_all
  have "rate_limit_burst (unat burst + 2) ktime saddr rate burst src_rate =
          1 # rate_limit_burst (Suc (unat burst)) ktime saddr rate burst ?tbl"
    by (simp add: first)
  with rest show ?thesis by simp
qed

text \<open>
  C3. The code at a burst of five packets of one source, all at the same clock reading,
  with burst limit 3 and no state stored before: four packets are allowed and the fifth
  is denied. The claim wants three. The first packet creates the state with all
  \<open>burst_limit\<close> tokens and is allowed without taking one.
\<close>

theorem burst_of_five_with_limit_three:
  "rate_limit_burst 5 5000000000 0x070200C0 10 3 [] = [1, 1, 1, 1, 0]"
  by (simp add: rate_limit_burst_numeral update_rate_limit_def refill_tokens_def
      get_current_time_def hash_defs map_src_rate_max_entries_def Let_def)

text \<open>
  Where neither the product nor the sum exceeds 32 bits, the refill of the source is the
  formula of the specification.
\<close>

lemma refill_tokens_exact:
  assumes prod: "unat time_diff * unat rate < 2 ^ 32"
    and sum: "unat stored + unat time_diff * unat rate div 1000 < 2 ^ 32"
  shows "unat (refill_tokens stored time_diff rate burst) =
           spec_new_tokens (unat stored) (unat time_diff) (unat rate) (unat burst)"
proof -
  have p: "unat (time_diff * rate) = unat time_diff * unat rate"
    using prod by (simp add: unat_mult_lem [THEN iffD1])
  have q: "unat ((time_diff * rate) div 1000) = unat time_diff * unat rate div 1000"
    by (simp add: unat_div p)
  have s: "unat (stored + (time_diff * rate) div 1000) =
             unat stored + unat time_diff * unat rate div 1000"
    using sum by (simp add: unat_add_lem [THEN iffD1] q)
  show ?thesis
    by (simp add: refill_tokens_def spec_new_tokens_def Let_def word_less_nat_alt s min_def)
qed

text \<open>
  C9. The code at a source that has 0 tokens and comes back after 4294968 milliseconds, to
  an endpoint with rate limit 1000 and burst limit 2000: the 32-bit product
  \<open>4294968 * 1000\<close> wraps to 704, the refill is 0, the new token count is 0 and the packet is
  denied. The formula of the claim gives 2000.
\<close>

theorem refill_wraps_around:
  "refill_tokens 0 4294968 1000 2000 = 0 \<and>
   spec_new_tokens 0 4294968 1000 2000 = 2000 \<and>
   update_rate_limit 4294968000000 0x070200C0 1000 2000
       [(0x070200C0, \<lparr>last_update = 0, tokens = 0, last_burst = 0\<rparr>)] =
     (0, [(0x070200C0, \<lparr>last_update = 4294968, tokens = 0, last_burst = 0\<rparr>)], [])"
  by (simp add: refill_tokens_def spec_new_tokens_def update_rate_limit_def
      get_current_time_def hash_defs)

lemma update_rate_limit_wf:
  assumes "wf_hash map_src_rate_max_entries src_rate"
    and "update_rate_limit ktime saddr rate burst src_rate = (r, src_rate', log)"
  shows "wf_hash map_src_rate_max_entries src_rate'"
proof (cases "bpf_map_lookup_elem src_rate saddr")
  case None
  with assms show ?thesis
    by (auto simp: update_rate_limit_def Let_def split: option.splits intro: wf_hash_update)
next
  case (Some st)
  with assms show ?thesis
    by (auto simp: update_rate_limit_def Let_def split: if_splits intro: wf_hash_store)
qed

section \<open>Endpoint lookup\<close>

text \<open>
  \<open>lpm_longest\<close> finds nothing exactly when no stored key covers the lookup key, and
  otherwise a covering key of the greatest prefix length. With a lookup key of prefix
  length at most 32, as the pipeline builds it, the port and the protocol of the lookup
  key have no influence on the result.
\<close>

lemma lpm_longest_None:
  "lpm_longest trie key = None \<longleftrightarrow> (\<forall>(k, v) \<in> set trie. \<not> lpm_covers k key)"
  by (induction trie) (auto split: option.splits if_splits)

lemma lpm_longest_Some:
  assumes "lpm_longest trie key = Some (k, v)"
  shows "(k, v) \<in> set trie \<and> lpm_covers k key \<and>
         (\<forall>(k', v') \<in> set trie. lpm_covers k' key \<longrightarrow> prefix_len k' \<le> prefix_len k)"
  using assms
proof (induction trie arbitrary: k v)
  case Nil
  then show ?case by simp
next
  case (Cons e trie)
  obtain k0 v0 where e: "e = (k0, v0)" by (cases e)
  show ?case
  proof (cases "lpm_longest trie key")
    case None
    with Cons.prems e have "lpm_covers k0 key" "k = k0" "v = v0"
      by (auto split: if_splits)
    moreover from None have "\<forall>(k', v') \<in> set trie. \<not> lpm_covers k' key"
      by (simp add: lpm_longest_None)
    ultimately show ?thesis using e by auto
  next
    case (Some best)
    obtain k1 v1 where best: "best = (k1, v1)" by (cases best)
    from Cons.IH [OF Some [unfolded best]] have ih:
      "(k1, v1) \<in> set trie" "lpm_covers k1 key"
      "\<forall>(k', v') \<in> set trie. lpm_covers k' key \<longrightarrow> prefix_len k' \<le> prefix_len k1"
      by auto
    show ?thesis
    proof (cases "lpm_covers k0 key \<and> prefix_len k1 < prefix_len k0")
      case True
      with Cons.prems e Some best have "k = k0" "v = v0" by auto
      with True ih e show ?thesis by fastforce
    next
      case False
      with Cons.prems e Some best have "k = k1" "v = v1" by auto
      with False ih e show ?thesis by fastforce
    qed
  qed
qed

lemma length_byte_bits: "length (byte_bits b) = 8"
  by (simp add: byte_bits_def)

lemma take_key_bits_address:
  assumes "n \<le> 32"
  shows "take n (key_bits (key\<lparr>port := p, protocol := q\<rparr>)) = take n (key_bits key)"
  using assms by (simp add: key_bits_def key_data_def length_byte_bits)

lemma lpm_covers_ignores_port:
  assumes "prefix_len key \<le> 32"
  shows "lpm_covers node (key\<lparr>port := p, protocol := q\<rparr>) = lpm_covers node key"
proof (cases "prefix_len node \<le> prefix_len key")
  case True
  with assms have "prefix_len node \<le> 32" by simp
  then have "unat (prefix_len node) \<le> 32" by (simp add: word_le_nat_alt)
  then show ?thesis by (simp add: lpm_covers_def take_key_bits_address)
next
  case False
  then show ?thesis by (simp add: lpm_covers_def)
qed

lemma lpm_longest_ignores_port:
  assumes "prefix_len key \<le> 32"
  shows "lpm_longest trie (key\<lparr>port := p, protocol := q\<rparr>) = lpm_longest trie key"
  by (induction trie) (auto simp: lpm_covers_ignores_port [OF assms] split: option.splits)

lemma lookup_prefix32_ignores_port:
  assumes "prefix_len key \<le> 32"
  shows "lpm_trie_lookup_elem trie (key\<lparr>port := p, protocol := q\<rparr>) =
           lpm_trie_lookup_elem trie key"
  by (simp add: lpm_trie_lookup_elem_def lpm_longest_ignores_port [OF assms])

text \<open>
  C5. The code at a TCP packet to 10.0.0.1 port 80, with a registry whose only entry is
  10.0.0.1 port 25565 over TCP: the lookup key has prefix length 32, so the trie compares
  the 32 address bits only and returns the policy of port 25565; the packet is rate
  limited (a rate state is created for its source), fails the handshake validator and is
  dropped. The claim wants no match and pass-through.
\<close>

theorem lookup_ignores_port:
  "lpm_trie_lookup_elem java_registry
     \<lparr>prefix_len = 32, ip = 0x0100000A, port = 80, protocol = 6\<rparr> = Some java_policy \<and>
   xdp_minecraft_protection (clock_at 5000000000) 4096 tcp_frame_port80 (maps_init java_registry) =
     (Returns XDP_DROP,
      (maps_init java_registry)
        \<lparr>map_src_rate := [(0x070200C0, \<lparr>last_update = 5000, tokens = 2000, last_burst = 0\<rparr>)],
         map_stats := [0, 0, 0, 1, 0, 0, 1, 0, 0, 0]\<rparr>,
      [(Map_src_rate, True)])"
  by (simp add: java_registry_port80 xdp_minecraft_protection_def tcp_frame_port80_fields
      tcp_frame_port80_java is_blacklisted_def maps_init_def clock_at_def xdp_endpoint_def
      xdp_validate_def xdp_finish_def update_rate_limit_def get_current_time_def hash_defs
      java_policy_def map_src_rate_max_entries_def update_stats_def map_stats_max_entries_def
      Let_def)

section \<open>Challenge gate\<close>

lemma handle_udp_challenge_no_state:
  assumes "bpf_map_lookup_elem challenges saddr = None"
  shows "handle_udp_challenge ktime ktime_retry saddr pkt challenges stats =
     (if length challenges < map_udp_challenges_max_entries
      then (0, AList.update saddr (new_challenge (ktime div 1000000) saddr) challenges,
            update_stats STAT_UDP_CHALLENGES_SENT stats, [(Map_udp_challenges, True)])
      else (0, challenges, stats, [(Map_udp_challenges, False)]))"
  using assms by (subst handle_udp_challenge.simps) (simp add: hash_defs)

text \<open>
  C6, as the code has it. The gate is given a source, a packet and the challenge table;
  the age of a stored challenge is the 64-bit difference between the clock in
  milliseconds and its timestamp.
  \<^item> No stored state, and the table has room: the state is created with the timestamp
    of this call, and the packet is denied.
  \<^item> No stored state, and the table is full: the insert fails, no state is created, and
    the packet is denied.
  \<^item> Stored state of age above 5000 ms (in a table within its capacity): the state is
    deleted, a fresh one is created with the timestamp of the second clock reading, and
    the packet is denied.
  \<^item> Stored state of age in (100, 5000] ms, and a packet of at least 8 bytes: the state
    is deleted and the packet is allowed.
  \<^item> Stored state of age at most 100 ms: the packet is denied, nothing changes.
  Every frame that the pipeline hands to the gate has at least 42 bytes.
\<close>

theorem challenge_gate_cases:
  "(bpf_map_lookup_elem challenges saddr = None \<and>
      length challenges < map_udp_challenges_max_entries \<longrightarrow>
      handle_udp_challenge ktime ktime_retry saddr pkt challenges stats =
        (0, AList.update saddr (new_challenge (ktime div 1000000) saddr) challenges,
         update_stats STAT_UDP_CHALLENGES_SENT stats, [(Map_udp_challenges, True)])) \<and>
   (bpf_map_lookup_elem challenges saddr = None \<and>
      map_udp_challenges_max_entries \<le> length challenges \<longrightarrow>
      handle_udp_challenge ktime ktime_retry saddr pkt challenges stats =
        (0, challenges, stats, [(Map_udp_challenges, False)])) \<and>
   (bpf_map_lookup_elem challenges saddr = Some c \<and>
      5000 < ktime div 1000000 - timestamp c \<and>
      length challenges \<le> map_udp_challenges_max_entries \<longrightarrow>
      handle_udp_challenge ktime ktime_retry saddr pkt challenges stats =
        (0, AList.update saddr (new_challenge (ktime_retry div 1000000) saddr)
              (bpf_map_delete_elem challenges saddr),
         update_stats STAT_UDP_CHALLENGES_SENT stats, [(Map_udp_challenges, True)])) \<and>
   (bpf_map_lookup_elem challenges saddr = Some c \<and>
      100 < ktime div 1000000 - timestamp c \<and> ktime div 1000000 - timestamp c \<le> 5000 \<and>
      8 \<le> length pkt \<longrightarrow>
      handle_udp_challenge ktime ktime_retry saddr pkt challenges stats =
        (1, bpf_map_delete_elem challenges saddr,
         update_stats STAT_UDP_CHALLENGES_PASSED stats, [])) \<and>
   (bpf_map_lookup_elem challenges saddr = Some c \<and>
      ktime div 1000000 - timestamp c \<le> 100 \<longrightarrow>
      handle_udp_challenge ktime ktime_retry saddr pkt challenges stats =
        (0, challenges, stats, []))"
proof -
  have expired:
    "handle_udp_challenge ktime ktime_retry saddr pkt challenges stats =
        (0, AList.update saddr (new_challenge (ktime_retry div 1000000) saddr)
              (bpf_map_delete_elem challenges saddr),
         update_stats STAT_UDP_CHALLENGES_SENT stats, [(Map_udp_challenges, True)])"
    if stored: "bpf_map_lookup_elem challenges saddr = Some c"
      and old: "5000 < ktime div 1000000 - timestamp c"
      and wf: "length challenges \<le> map_udp_challenges_max_entries"
  proof -
    have gone: "bpf_map_lookup_elem (bpf_map_delete_elem challenges saddr) saddr = None"
      by (simp add: hash_defs delete_conv)
    from stored have "length (bpf_map_delete_elem challenges saddr) < length challenges"
      by (simp add: hash_defs length_delete_less)
    with wf have room:
      "length (bpf_map_delete_elem challenges saddr) < map_udp_challenges_max_entries"
      by simp
    from stored old have
      "handle_udp_challenge ktime ktime_retry saddr pkt challenges stats =
       handle_udp_challenge ktime_retry ktime_retry saddr pkt
         (bpf_map_delete_elem challenges saddr) stats"
      by (subst handle_udp_challenge.simps) (simp add: Let_def)
    also have "\<dots> = (0, AList.update saddr (new_challenge (ktime_retry div 1000000) saddr)
              (bpf_map_delete_elem challenges saddr),
         update_stats STAT_UDP_CHALLENGES_SENT stats, [(Map_udp_challenges, True)])"
      using room by (simp add: handle_udp_challenge_no_state [OF gone])
    finally show ?thesis .
  qed
  have passed:
    "handle_udp_challenge ktime ktime_retry saddr pkt challenges stats =
        (1, bpf_map_delete_elem challenges saddr,
         update_stats STAT_UDP_CHALLENGES_PASSED stats, [])"
    if "bpf_map_lookup_elem challenges saddr = Some c"
      and "100 < ktime div 1000000 - timestamp c"
      and "ktime div 1000000 - timestamp c \<le> 5000" and "8 \<le> length pkt"
    using that by (subst handle_udp_challenge.simps) (simp add: Let_def not_less [symmetric])
  have waiting:
    "handle_udp_challenge ktime ktime_retry saddr pkt challenges stats =
        (0, challenges, stats, [])"
    if "bpf_map_lookup_elem challenges saddr = Some c"
      and "ktime div 1000000 - timestamp c \<le> 100"
  proof -
    from that(2) have "\<not> 5000 < ktime div 1000000 - timestamp c"
      "\<not> 100 < ktime div 1000000 - timestamp c"
      by (simp_all add: word_le_nat_alt word_less_nat_alt)
    with that(1) show ?thesis
      by (subst handle_udp_challenge.simps) (simp add: Let_def)
  qed
  show ?thesis
    using expired passed waiting
    by (simp add: handle_udp_challenge_no_state)
qed

text \<open>
  The five cases of \<open>challenge_gate_cases\<close> at source 192.0.2.7 and the datagram frame: an
  empty table at 1000 ms; the full table; the state of 1000 ms at 7000 ms, 1150 ms and
  1050 ms.
\<close>

theorem challenge_gate_cases_witness:
  "(bpf_map_lookup_elem [] (0x070200C0 :: u32) = (None :: udp_challenge_state option) \<and>
    length ([] :: (u32, udp_challenge_state) bpf_hash) < map_udp_challenges_max_entries \<and>
    handle_udp_challenge 1000000000 1000000000 0x070200C0 udp_frame_bedrock []
        [0, 0, 0, 0, 0, 0, 0, 0, 0, 0] =
      (0, [(0x070200C0, new_challenge 1000 0x070200C0)], [0, 0, 0, 0, 0, 0, 0, 0, 0, 0],
       [(Map_udp_challenges, True)])) \<and>
   (bpf_map_lookup_elem full_challenge_table 0x070200C0 = None \<and>
    map_udp_challenges_max_entries \<le> length full_challenge_table \<and>
    handle_udp_challenge 1000000000 1000000000 0x070200C0 udp_frame_bedrock full_challenge_table
        [0, 0, 0, 0, 0, 0, 0, 0, 0, 0] =
      (0, full_challenge_table, [0, 0, 0, 0, 0, 0, 0, 0, 0, 0], [(Map_udp_challenges, False)])) \<and>
   (bpf_map_lookup_elem [(0x070200C0, new_challenge 1000 0x070200C0)] 0x070200C0 =
      Some (new_challenge 1000 0x070200C0) \<and>
    (5000 :: u64) < 7000000000 div 1000000 - timestamp (new_challenge 1000 0x070200C0) \<and>
    length [(0x070200C0 :: u32, new_challenge 1000 0x070200C0)] \<le> map_udp_challenges_max_entries \<and>
    handle_udp_challenge 7000000000 7000000001 0x070200C0 udp_frame_bedrock
        [(0x070200C0, new_challenge 1000 0x070200C0)] [0, 0, 0, 0, 0, 0, 0, 0, 0, 0] =
      (0, [(0x070200C0, new_challenge 7000 0x070200C0)], [0, 0, 0, 0, 0, 0, 0, 0, 0, 0],
       [(Map_udp_challenges, True)])) \<and>
   (bpf_map_lookup_elem [(0x070200C0, new_challenge 1000 0x070200C0)] 0x070200C0 =
      Some (new_challenge 1000 0x070200C0) \<and>
    (100 :: u64) < 1150000000 div 1000000 - timestamp (new_challenge 1000 0x070200C0) \<and>
    (1150000000 :: u64) div 1000000 - timestamp (new_challenge 1000 0x070200C0) \<le> 5000 \<and>
    8 \<le> length udp_frame_bedrock \<and>
    handle_udp_challenge 1150000000 1150000000 0x070200C0 udp_frame_bedrock
        [(0x070200C0, new_challenge 1000 0x070200C0)] [0, 0, 0, 0, 0, 0, 0, 0, 0, 0] =
      (1, [], [0, 0, 0, 0, 0, 0, 0, 0, 0, 0], [])) \<and>
   (bpf_map_lookup_elem [(0x070200C0, new_challenge 1000 0x070200C0)] 0x070200C0 =
      Some (new_challenge 1000 0x070200C0) \<and>
    (1050000000 :: u64) div 1000000 - timestamp (new_challenge 1000 0x070200C0) \<le> 100 \<and>
    handle_udp_challenge 1050000000 1050000000 0x070200C0 udp_frame_bedrock
        [(0x070200C0, new_challenge 1000 0x070200C0)] [0, 0, 0, 0, 0, 0, 0, 0, 0, 0] =
      (0, [(0x070200C0, new_challenge 1000 0x070200C0)], [0, 0, 0, 0, 0, 0, 0, 0, 0, 0], []))"
proof -
  note gate = challenge_gate_cases [where saddr = "0x070200C0" and pkt = udp_frame_bedrock
      and stats = "[0, 0, 0, 0, 0, 0, 0, 0, 0, 0]" and c = "new_challenge 1000 0x070200C0"]
  note ev = hash_defs map_udp_challenges_max_entries_def update_stats_def
    map_stats_max_entries_def udp_frame_bedrock_fields full_challenge_table_length
    full_challenge_table_absent
  have fresh: "timestamp (new_challenge 1000 0x070200C0) = 1000"
    by (simp add: new_challenge_def)
  have first: "?thesis \<longleftrightarrow> True"
    using gate [where challenges = "[]" and ktime = 1000000000 and ktime_retry = 1000000000]
      gate [where challenges = full_challenge_table and ktime = 1000000000
        and ktime_retry = 1000000000]
      gate [where challenges = "[(0x070200C0, new_challenge 1000 0x070200C0)]"
        and ktime = 7000000000 and ktime_retry = 7000000001]
      gate [where challenges = "[(0x070200C0, new_challenge 1000 0x070200C0)]"
        and ktime = 1150000000 and ktime_retry = 1150000000]
      gate [where challenges = "[(0x070200C0, new_challenge 1000 0x070200C0)]"
        and ktime = 1050000000 and ktime_retry = 1050000000]
    by (simp add: ev fresh)
  then show ?thesis by simp
qed

text \<open>
  The claim C6 as it is stated fails when the challenge table is full: the datagram frame
  is valid, its source 192.0.2.7 has no stored state, the gate denies the packet, and no
  state is created: the source has no stored state after the call either.
\<close>

theorem challenge_gate_full_table:
  "validate_minecraft_bedrock udp_frame_bedrock = 1 \<and>
   bpf_map_lookup_elem full_challenge_table 0x070200C0 = None \<and>
   handle_udp_challenge 1000000000 1000000000 0x070200C0 udp_frame_bedrock full_challenge_table
       [0, 0, 0, 0, 0, 0, 0, 0, 0, 0] =
     (0, full_challenge_table, [0, 0, 0, 0, 0, 0, 0, 0, 0, 0], [(Map_udp_challenges, False)]) \<and>
   bpf_map_lookup_elem
     (fst (snd (handle_udp_challenge 1000000000 1000000000 0x070200C0 udp_frame_bedrock
                  full_challenge_table [0, 0, 0, 0, 0, 0, 0, 0, 0, 0]))) 0x070200C0 = None"
  by (simp add: handle_udp_challenge.simps bpf_map_lookup_elem_def bpf_map_update_elem_def
      full_challenge_table_absent full_challenge_table_length map_udp_challenges_max_entries_def
      udp_frame_bedrock_fields)

lemma handle_udp_challenge_wf:
  assumes "wf_hash map_udp_challenges_max_entries challenges"
    and "handle_udp_challenge ktime ktime_retry saddr pkt challenges stats =
           (r, challenges', stats', log)"
  shows "wf_hash map_udp_challenges_max_entries challenges'"
  using assms
proof (induction ktime ktime_retry saddr pkt challenges stats rule: handle_udp_challenge.induct)
  case (1 ktime ktime_retry saddr pkt challenges stats)
  note unfold = handle_udp_challenge.simps [of ktime ktime_retry saddr pkt challenges stats]
  show ?case
  proof (cases "bpf_map_lookup_elem challenges saddr")
    case None
    with "1.prems" show ?thesis
      by (auto simp: unfold Let_def split: option.splits intro: wf_hash_update)
  next
    case (Some c)
    show ?thesis
    proof (cases "ktime div 1000000 - timestamp c > 5000")
      case True
      with Some "1.prems" have
        "handle_udp_challenge ktime_retry ktime_retry saddr pkt
           (bpf_map_delete_elem challenges saddr) stats = (r, challenges', stats', log)"
        by (simp add: unfold Let_def)
      with "1.IH" [OF refl Some True] "1.prems"(1) show ?thesis
        by (simp add: wf_hash_delete)
    next
      case False
      with Some "1.prems" show ?thesis
        by (auto simp: unfold Let_def split: if_splits intro: wf_hash_delete)
    qed
  qed
qed

text \<open>
  A frame of fewer than 42 bytes never reaches the gate: the pipeline ends before the
  endpoint lookup, with no table write, and leaves the challenge table as it is.
\<close>

lemma short_frames_stop_before_gate:
  assumes "length pkt < 42"
  shows "\<exists>a m'. xdp_minecraft_protection clk data pkt m = (Returns a, m', []) \<and>
           a \<noteq> XDP_REDIRECT \<and> map_udp_challenges m' = map_udp_challenges m"
  using assms
  by (auto simp: xdp_minecraft_protection_def Let_def split: prod.splits)

section \<open>The pipeline makes no read past the frame end\<close>

text \<open>
  A frame that reaches the handshake validator has passed the EtherType test, so its byte
  12 is 8: every run of the pipeline ends with an action.
\<close>

lemma ethertype_ip_byte:
  assumes "eth_h_proto pkt = bpf_htons 0x0800"
  shows "pkt ! 12 = 8"
proof -
  have "ucast (le16 (pkt ! 12) (pkt ! 13)) = pkt ! 12"
    by (rule bit_word_eqI) (auto simp: le16_def bit_simps)
  moreover from assms have "le16 (pkt ! 12) (pkt ! 13) = 8"
    by (simp add: eth_h_proto_def bpf_htons_def)
  ultimately show ?thesis by simp
qed

lemma xdp_finish_returns: "\<exists>a. fst (xdp_finish valid_protocol pkt key m log) = Returns a"
  by (simp add: xdp_finish_def split: prod.splits)

lemma xdp_validate_returns:
  assumes "12 < length pkt" and "pkt ! 12 AND 0x80 = 0"
  shows "\<exists>a. fst (xdp_validate clk data pkt key endpoint m log) = Returns a"
proof -
  from validate_minecraft_java_in_bounds [OF assms] obtain r where
    "validate_minecraft_java data pkt = Returns r" by blast
  then show ?thesis
    by (simp add: xdp_validate_def xdp_finish_returns split: prod.splits)
qed

lemma xdp_endpoint_returns:
  assumes "12 < length pkt" and "pkt ! 12 AND 0x80 = 0"
  shows "\<exists>a. fst (xdp_endpoint clk data pkt key m) = Returns a"
  by (simp add: xdp_endpoint_def xdp_validate_returns [OF assms] split: option.splits prod.splits)

lemma pipeline_reads_in_bounds:
  "\<exists>a. fst (xdp_minecraft_protection clk data pkt m) = Returns a"
proof (cases "14 \<le> length pkt \<and> eth_h_proto pkt = bpf_htons 0x0800")
  case True
  then have "12 < length pkt" "pkt ! 12 AND 0x80 = 0"
    by (simp_all add: ethertype_ip_byte)
  note ep = xdp_endpoint_returns [OF this]
  show ?thesis
    by (simp add: xdp_minecraft_protection_def Let_def ep split: prod.splits)
next
  case False
  then show ?thesis
    by (auto simp: xdp_minecraft_protection_def Let_def)
qed

section \<open>Failed table writes\<close>

text \<open>
  The writes that one run attempts, stage by stage: at most one to the rate table, then at
  most one to the challenge table, then at most one to the flow table; and a failed write
  to the rate table or to the challenge table comes with the action \<open>XDP_DROP\<close>.
\<close>

lemma update_rate_limit_log:
  assumes "update_rate_limit ktime saddr rate burst src_rate = (r, src_rate', log)"
  shows "log = [] \<and> (r = 0 \<or> r = 1) \<or> log = [(Map_src_rate, True)] \<and> r = 1 \<or>
         log = [(Map_src_rate, False)] \<and> r = - 1"
  using assms
  by (auto simp: update_rate_limit_def Let_def split: option.splits if_splits)

lemma handle_udp_challenge_log:
  assumes "handle_udp_challenge ktime ktime_retry saddr pkt challenges stats = (r, challenges', stats', log)"
  shows "log = [] \<and> (r = 0 \<or> r = 1) \<or> log = [(Map_udp_challenges, True)] \<and> r = 0 \<or>
         log = [(Map_udp_challenges, False)] \<and> r = 0"
  using assms
proof (induction ktime ktime_retry saddr pkt challenges stats rule: handle_udp_challenge.induct)
  case (1 ktime ktime_retry saddr pkt challenges stats)
  note unfold = handle_udp_challenge.simps [of ktime ktime_retry saddr pkt challenges stats]
  show ?case
  proof (cases "bpf_map_lookup_elem challenges saddr")
    case None
    with "1.prems" show ?thesis
      by (auto simp: unfold Let_def split: option.splits)
  next
    case (Some c)
    show ?thesis
    proof (cases "ktime div 1000000 - timestamp c > 5000")
      case True
      with Some "1.prems" have
        "handle_udp_challenge ktime_retry ktime_retry saddr pkt
           (bpf_map_delete_elem challenges saddr) stats = (r, challenges', stats', log)"
        by (simp add: unfold Let_def)
      with "1.IH" [OF refl Some True] show ?thesis .
    next
      case False
      with Some "1.prems" show ?thesis
        by (auto simp: unfold Let_def split: if_splits)
    qed
  qed
qed

lemma conntrack_record_log:
  assumes "conntrack_record saddr daddr sport dport proto conntrack = (conntrack', log)"
  shows "log = [] \<or> log = [(Map_conntrack, True)] \<or> log = [(Map_conntrack, False)]"
  using assms
  by (auto simp: conntrack_record_def Let_def split: option.splits)

lemma xdp_finish_log:
  assumes "xdp_finish valid_protocol pkt key m log = (outcome, m', log')"
  shows "\<exists>l. log' = log @ l \<and>
           (l = [] \<or> l = [(Map_conntrack, True)] \<or> l = [(Map_conntrack, False)])"
  using assms
  by (auto simp: xdp_finish_def split: if_splits prod.splits dest: conntrack_record_log)

lemma xdp_validate_log:
  assumes "xdp_validate clk data pkt key endpoint m log = (outcome, m', log')"
  shows "\<exists>l2 l3. log' = log @ l2 @ l3 \<and>
           (l2 = [] \<or> l2 = [(Map_udp_challenges, True)] \<or>
            l2 = [(Map_udp_challenges, False)] \<and> outcome = Returns XDP_DROP) \<and>
           (l3 = [] \<or> l3 = [(Map_conntrack, True)] \<or> l3 = [(Map_conntrack, False)])"
proof -
  consider
      (java) "ip_protocol pkt = 6 \<and> protocol_type endpoint = 0"
    | (bedrock) "\<not> (ip_protocol pkt = 6 \<and> protocol_type endpoint = 0)"
        "ip_protocol pkt = 17 \<and> protocol_type endpoint = 1" "validate_minecraft_bedrock pkt \<noteq> 0"
    | (other) "\<not> (ip_protocol pkt = 6 \<and> protocol_type endpoint = 0)"
        "\<not> (ip_protocol pkt = 17 \<and> protocol_type endpoint = 1 \<and> validate_minecraft_bedrock pkt \<noteq> 0)"
    by blast
  then show ?thesis
  proof cases
    case java
    show ?thesis
    proof (cases "validate_minecraft_java data pkt")
      case (Returns v)
      with java assms have "xdp_finish v pkt key m log = (outcome, m', log')"
        by (simp add: xdp_validate_def)
      from xdp_finish_log [OF this] show ?thesis by fastforce
    next
      case (ReadPastEnd a)
      with java assms have "log' = log" by (simp add: xdp_validate_def)
      then show ?thesis by simp
    qed
  next
    case bedrock
    obtain r ch st l where gate:
      "handle_udp_challenge (t_challenge clk) (t_challenge_retry clk) (ip_saddr pkt) pkt
         (map_udp_challenges m) (map_stats m) = (r, ch, st, l)"
      by (metis prod_cases4)
    note shape = handle_udp_challenge_log [OF gate]
    show ?thesis
    proof (cases "r = 0")
      case True
      with bedrock gate assms have "log' = log @ l" "outcome = Returns XDP_DROP"
        by (auto simp: xdp_validate_def)
      with shape show ?thesis by auto
    next
      case False
      with bedrock gate assms have
        "xdp_finish 1 pkt key (m\<lparr>map_udp_challenges := ch, map_stats := st\<rparr>) (log @ l) =
           (outcome, m', log')"
        by (auto simp: xdp_validate_def)
      from xdp_finish_log [OF this] obtain l3 where
        "log' = (log @ l) @ l3"
        "l3 = [] \<or> l3 = [(Map_conntrack, True)] \<or> l3 = [(Map_conntrack, False)]"
        by blast
      with shape False show ?thesis by auto
    qed
  next
    case other
    with assms have "xdp_finish 0 pkt key m log = (outcome, m', log')"
      by (auto simp: xdp_validate_def split: if_splits)
    from xdp_finish_log [OF this] show ?thesis by fastforce
  qed
qed

lemma xdp_endpoint_log:
  assumes "xdp_endpoint clk data pkt key m = (outcome, m', log)"
  shows "\<exists>l1 l2 l3. log = l1 @ l2 @ l3 \<and>
           (l1 = [] \<or> l1 = [(Map_src_rate, True)] \<or>
            l1 = [(Map_src_rate, False)] \<and> outcome = Returns XDP_DROP) \<and>
           (l2 = [] \<or> l2 = [(Map_udp_challenges, True)] \<or>
            l2 = [(Map_udp_challenges, False)] \<and> outcome = Returns XDP_DROP) \<and>
           (l3 = [] \<or> l3 = [(Map_conntrack, True)] \<or> l3 = [(Map_conntrack, False)])"
proof (cases "lpm_trie_lookup_elem (map_protected_endpoints m) key")
  case None
  with assms have "log = []" by (simp add: xdp_endpoint_def)
  then show ?thesis by simp
next
  case (Some endpoint)
  show ?thesis
  proof (cases "maintenance_mode endpoint \<noteq> 0")
    case True
    with Some assms have "log = []" by (simp add: xdp_endpoint_def)
    then show ?thesis by simp
  next
    case False
    obtain r sr l1 where rate:
      "update_rate_limit (t_rate_limit clk) (ip_saddr pkt) (rate_limit endpoint)
         (burst_limit endpoint) (map_src_rate m) = (r, sr, l1)"
      by (metis prod_cases3)
    note shape = update_rate_limit_log [OF rate]
    show ?thesis
    proof (cases "r = 1")
      case True
      with Some False rate assms have
        "xdp_validate clk data pkt key endpoint (m\<lparr>map_src_rate := sr\<rparr>) l1 = (outcome, m', log)"
        by (simp add: xdp_endpoint_def)
      from xdp_validate_log [OF this] obtain l2 l3 where
        "log = l1 @ l2 @ l3"
        "l2 = [] \<or> l2 = [(Map_udp_challenges, True)] \<or>
         l2 = [(Map_udp_challenges, False)] \<and> outcome = Returns XDP_DROP"
        "l3 = [] \<or> l3 = [(Map_conntrack, True)] \<or> l3 = [(Map_conntrack, False)]"
        by blast
      moreover from shape True have "l1 = [] \<or> l1 = [(Map_src_rate, True)]" by auto
      ultimately show ?thesis by blast
    next
      case not_allowed: False
      with shape have "r = 0 \<or> r = - 1" by auto
      with Some False rate assms have "log = l1" "outcome = Returns XDP_DROP"
        by (auto simp: xdp_endpoint_def)
      with shape have "log = l1 @ [] @ []"
        "l1 = [] \<or> l1 = [(Map_src_rate, True)] \<or>
         l1 = [(Map_src_rate, False)] \<and> outcome = Returns XDP_DROP"
        by auto
      then show ?thesis by blast
    qed
  qed
qed

lemma xdp_minecraft_protection_log:
  assumes "xdp_minecraft_protection clk data pkt m = (outcome, m', log)"
  shows "\<exists>l1 l2 l3. log = l1 @ l2 @ l3 \<and>
           (l1 = [] \<or> l1 = [(Map_src_rate, True)] \<or>
            l1 = [(Map_src_rate, False)] \<and> outcome = Returns XDP_DROP) \<and>
           (l2 = [] \<or> l2 = [(Map_udp_challenges, True)] \<or>
            l2 = [(Map_udp_challenges, False)] \<and> outcome = Returns XDP_DROP) \<and>
           (l3 = [] \<or> l3 = [(Map_conntrack, True)] \<or> l3 = [(Map_conntrack, False)])"
proof -
  from assms have
    "log = [] \<or> (\<exists>key m1. xdp_endpoint clk data pkt key m1 = (outcome, m', log))"
    by (auto simp: xdp_minecraft_protection_def Let_def split: if_splits prod.splits)
  then show ?thesis
  proof
    assume "log = []"
    then show ?thesis by simp
  next
    assume "\<exists>key m1. xdp_endpoint clk data pkt key m1 = (outcome, m', log)"
    then obtain key m1 where "xdp_endpoint clk data pkt key m1 = (outcome, m', log)" by blast
    from xdp_endpoint_log [OF this] show ?thesis .
  qed
qed

text \<open>
  C7. For every frame, clock and state of the maps: if the run attempted a write to the
  rate table or to the challenge table that failed, its action is \<open>XDP_DROP\<close> (it is
  neither \<open>XDP_REDIRECT\<close> nor \<open>XDP_PASS\<close>, and the run made no read past the buffer
  end); and the run attempts at most one write to each of the two tables, so a failed
  write is not tried again.
\<close>

theorem failed_state_write_drops:
  assumes "xdp_minecraft_protection clk data pkt m = (outcome, m', log)"
  shows "((Map_src_rate, False) \<in> set log \<or> (Map_udp_challenges, False) \<in> set log
            \<longrightarrow> outcome = Returns XDP_DROP) \<and>
         length (filter (\<lambda>w. fst w = Map_src_rate) log) \<le> 1 \<and>
         length (filter (\<lambda>w. fst w = Map_udp_challenges) log) \<le> 1"
proof -
  from xdp_minecraft_protection_log [OF assms] obtain l1 l2 l3 where
    log: "log = l1 @ l2 @ l3" and
    l1: "l1 = [] \<or> l1 = [(Map_src_rate, True)] \<or>
         l1 = [(Map_src_rate, False)] \<and> outcome = Returns XDP_DROP" and
    l2: "l2 = [] \<or> l2 = [(Map_udp_challenges, True)] \<or>
         l2 = [(Map_udp_challenges, False)] \<and> outcome = Returns XDP_DROP" and
    l3: "l3 = [] \<or> l3 = [(Map_conntrack, True)] \<or> l3 = [(Map_conntrack, False)]"
    by blast
  have rate: "length (filter (\<lambda>w. fst w = Map_src_rate) log) \<le> 1"
    using l1 l2 l3 by (auto simp: log)
  have challenge: "length (filter (\<lambda>w. fst w = Map_udp_challenges) log) \<le> 1"
    using l1 l2 l3 by (auto simp: log)
  have drop: "(Map_src_rate, False) \<in> set log \<or> (Map_udp_challenges, False) \<in> set log
                \<longrightarrow> outcome = Returns XDP_DROP"
    using l1 l2 l3 by (auto simp: log)
  from drop rate challenge show ?thesis by blast
qed

text \<open>
  The datagram frame, once with the rate table full (the insert of the rate state fails)
  and once with the challenge table full (the insert of the challenge fails).
\<close>

theorem failed_state_write_drops_witness:
  "xdp_minecraft_protection (clock_at 5000000000) 4096 udp_frame_bedrock
       ((maps_init bedrock_registry)\<lparr>map_src_rate := full_rate_table\<rparr>) =
     (Returns XDP_DROP,
      (maps_init bedrock_registry)
        \<lparr>map_src_rate := full_rate_table, map_stats := [0, 0, 0, 0, 0, 0, 1, 0, 0, 0]\<rparr>,
      [(Map_src_rate, False)]) \<and>
   (Map_src_rate, False) \<in> set [(Map_src_rate, False)] \<and>
   xdp_minecraft_protection (clock_at 5000000000) 4096 udp_frame_bedrock
       ((maps_init bedrock_registry)\<lparr>map_udp_challenges := full_challenge_table\<rparr>) =
     (Returns XDP_DROP,
      (maps_init bedrock_registry)
        \<lparr>map_src_rate := [(0x070200C0, \<lparr>last_update = 5000, tokens = 2000, last_burst = 0\<rparr>)],
         map_stats := [0, 0, 0, 0, 1, 0, 1, 0, 0, 0],
         map_udp_challenges := full_challenge_table\<rparr>,
      [(Map_src_rate, True), (Map_udp_challenges, False)]) \<and>
   (Map_udp_challenges, False) \<in> set [(Map_src_rate, True), (Map_udp_challenges, False)] \<and>
   length (filter (\<lambda>w. fst w = Map_src_rate) [(Map_src_rate, True), (Map_udp_challenges, False)]) \<le> 1"
proof -
  note ev = xdp_minecraft_protection_def udp_frame_bedrock_fields bedrock_registry_lookup
    is_blacklisted_def maps_init_def clock_at_def xdp_endpoint_def xdp_validate_def
    update_rate_limit_def get_current_time_def hash_defs bedrock_policy_def
    map_src_rate_max_entries_def update_stats_def map_stats_max_entries_def
    full_rate_table_length full_rate_table_absent Let_def
  have rate: "xdp_minecraft_protection (clock_at 5000000000) 4096 udp_frame_bedrock
       ((maps_init bedrock_registry)\<lparr>map_src_rate := full_rate_table\<rparr>) =
     (Returns XDP_DROP,
      (maps_init bedrock_registry)
        \<lparr>map_src_rate := full_rate_table, map_stats := [0, 0, 0, 0, 0, 0, 1, 0, 0, 0]\<rparr>,
      [(Map_src_rate, False)])"
    by (simp add: ev)
  have challenge: "xdp_minecraft_protection (clock_at 5000000000) 4096 udp_frame_bedrock
       ((maps_init bedrock_registry)\<lparr>map_udp_challenges := full_challenge_table\<rparr>) =
     (Returns XDP_DROP,
      (maps_init bedrock_registry)
        \<lparr>map_src_rate := [(0x070200C0, \<lparr>last_update = 5000, tokens = 2000, last_burst = 0\<rparr>)],
         map_stats := [0, 0, 0, 0, 1, 0, 1, 0, 0, 0],
         map_udp_challenges := full_challenge_table\<rparr>,
      [(Map_src_rate, True), (Map_udp_challenges, False)])"
    by (simp add: ev handle_udp_challenge.simps full_challenge_table_length
        full_challenge_table_absent map_udp_challenges_max_entries_def)
  from failed_state_write_drops [OF rate] failed_state_write_drops [OF challenge]
  show ?thesis using rate challenge by simp
qed

end
